theory Spec2Isabelle
  imports
    Main
    "HOL-Library.Multiset"
    "HOL-Library.Sublist"
    "HOL-Library.Char_ord"
    "HOL-Library.List_Lexorder"
    "HOL-Library.Product_Lexorder"
begin

section \<open>Entity schema (app/models.py)\<close>

text \<open>
  A \<open>datetime\<close> is a count of microseconds since the epoch. Strings are lists of
  8-bit characters. Fields carry a prefix per table, because record fields share one
  name space.
\<close>

type_synonym datetime = int

datatype ContentType = BOOK | ARTICLE | MAGAZINE | MULTIMEDIA

datatype ContentStatus = AVAILABLE | CHECKED_OUT | RESERVED | MAINTENANCE

record ContentAuthor =
  ca_content_id :: int
  ca_author_id :: int

record ContentCategory =
  cc_content_id :: int
  cc_category_id :: int

record Content =
  c_id :: "int option"
  c_title :: string
  c_description :: string
  c_content_type :: ContentType
  c_status :: ContentStatus
  c_isbn :: "string option"
  c_language :: string
  c_publication_date :: "datetime option"
  c_created_at :: datetime
  c_updated_at :: datetime
  c_tags :: "string list"
  c_content_metadata :: "(string \<times> string) list"

record Book =
  b_id :: "int option"
  b_content_id :: int
  b_page_count :: "int option"
  b_publisher :: string
  b_edition :: string
  b_format :: string

record Article =
  ar_id :: "int option"
  ar_content_id :: int
  ar_journal_name :: string
  ar_volume :: "string option"
  ar_issue :: "string option"
  ar_page_range :: "string option"
  ar_doi :: "string option"

record Magazine =
  mg_id :: "int option"
  mg_content_id :: int
  mg_issue_number :: string
  mg_frequency :: string
  mg_publisher :: string

text \<open>\<open>file_size_mb\<close> is a decimal with two places; it is kept in hundredths.\<close>

record Multimedia =
  mm_id :: "int option"
  mm_content_id :: int
  mm_media_type :: string
  mm_duration_minutes :: "int option"
  mm_file_format :: "string option"
  mm_file_size_mb :: "int option"

record Author =
  a_id :: "int option"
  a_first_name :: string
  a_last_name :: string
  a_biography :: string
  a_birth_date :: "datetime option"
  a_website :: "string option"

record Category =
  cat_id :: "int option"
  cat_name :: string
  cat_description :: string
  cat_parent_id :: "int option"

record ContentCreate =
  new_title :: string
  new_description :: string
  new_content_type :: ContentType
  new_isbn :: "string option"
  new_language :: string
  new_publication_date :: "datetime option"
  new_tags :: "string list"
  new_content_metadata :: "(string \<times> string) list"

record BookCreate =
  new_page_count :: "int option"
  new_publisher :: string
  new_edition :: string
  new_format :: string

text \<open>
  \<open>Content(**content_data.model_dump())\<close>: the fields of the schema object, and the
  defaults of the table class for the others. The default factories of \<open>created_at\<close>
  and of \<open>updated_at\<close> each read the clock; the argument \<open>now\<close> is the pair of the
  two readings.
\<close>

definition Content_init :: "ContentCreate \<Rightarrow> datetime \<times> datetime \<Rightarrow> Content" where
  "Content_init content_data now =
     \<lparr>c_id = None,
      c_title = new_title content_data,
      c_description = new_description content_data,
      c_content_type = new_content_type content_data,
      c_status = AVAILABLE,
      c_isbn = new_isbn content_data,
      c_language = new_language content_data,
      c_publication_date = new_publication_date content_data,
      c_created_at = fst now,
      c_updated_at = snd now,
      c_tags = new_tags content_data,
      c_content_metadata = new_content_metadata content_data\<rparr>"

text \<open>\<open>Book(**book_data.model_dump(), content_id=content.id)\<close>\<close>

definition Book_init :: "BookCreate \<Rightarrow> int \<Rightarrow> Book" where
  "Book_init book_data content_id =
     \<lparr>b_id = None,
      b_content_id = content_id,
      b_page_count = new_page_count book_data,
      b_publisher = new_publisher book_data,
      b_edition = new_edition book_data,
      b_format = new_format book_data\<rparr>"

section \<open>The relational store and the session\<close>

text \<open>
  The tables the services touch, each a list of rows in insertion order. The tables
  \<open>users\<close>, \<open>checkouts\<close>, \<open>reservations\<close> and \<open>reviews\<close> are never read or
  written by a service and are left out.
\<close>

record store =
  t_content :: "Content list"
  t_books :: "Book list"
  t_articles :: "Article list"
  t_magazines :: "Magazine list"
  t_multimedia :: "Multimedia list"
  t_authors :: "Author list"
  t_categories :: "Category list"
  t_content_authors :: "ContentAuthor list"
  t_content_categories :: "ContentCategory list"

definition empty_store :: store where
  "empty_store =
     \<lparr>t_content = [], t_books = [], t_articles = [], t_magazines = [], t_multimedia = [],
      t_authors = [], t_categories = [], t_content_authors = [], t_content_categories = []\<rparr>"

datatype error = IntegrityError | InvalidRequestError

datatype entity =
    EContent Content
  | EBook Book
  | EAuthor Author
  | ECategory Category
  | EContentAuthor ContentAuthor
  | EContentCategory ContentCategory

text \<open>
  Modelled from the spec: the storage gateway (\<open>app/database.py\<close>, \<open>get_session\<close>) is
  not among the sources. The spec describes it as a session on a relational store with
  scoped transactions (begin, commit, rollback), where a violated constraint surfaces as
  a storage error. A session is the list of objects added and not yet flushed; the store
  itself is what has been committed. Leaving the \<open>with\<close> block drops the session.
\<close>

record session =
  pending :: "entity list"

definition get_session :: session where
  "get_session = \<lparr>pending = []\<rparr>"

definition session_add :: "session \<Rightarrow> entity \<Rightarrow> session" where
  "session_add session obj = session\<lparr>pending := pending session @ [obj]\<rparr>"

definition session_rollback :: "session \<Rightarrow> session" where
  "session_rollback session = session\<lparr>pending := []\<rparr>"

text \<open>
  An autoincrement primary key: the engine hands out an id above every id of the table.
\<close>

definition next_id :: "int option list \<Rightarrow> int" where
  "next_id ids = foldr (\<lambda>i m. case i of None \<Rightarrow> m | Some k \<Rightarrow> max k m) ids 0 + 1"

text \<open>
  One INSERT or UPDATE of the flush, with the constraints that \<open>models.py\<close> declares:
  primary keys, the unique columns \<open>books.content_id\<close> and \<open>categories.name\<close>, and the
  foreign keys. A Content object that carries the id of a stored row is a loaded object
  that was modified, so it is written back with UPDATE. The result is the new store and
  the object as the session holds it afterwards (with its primary key).
\<close>

fun persist :: "store \<Rightarrow> entity \<Rightarrow> error + store \<times> entity" where
  "persist db (EContent c) =
     (case c_id c of
        None \<Rightarrow>
          (let row = c\<lparr>c_id := Some (next_id (map c_id (t_content db)))\<rparr>
           in Inr (db\<lparr>t_content := t_content db @ [row]\<rparr>, EContent row))
      | Some i \<Rightarrow>
          (if Some i \<in> set (map c_id (t_content db))
           then Inr (db\<lparr>t_content :=
                       map (\<lambda>r. if c_id r = Some i then c else r) (t_content db)\<rparr>,
                     EContent c)
           else Inr (db\<lparr>t_content := t_content db @ [c]\<rparr>, EContent c)))"
| "persist db (EBook b) =
     (let row = (case b_id b of
                   None \<Rightarrow> b\<lparr>b_id := Some (next_id (map b_id (t_books db)))\<rparr>
                 | Some _ \<Rightarrow> b)
      in if b_id row \<in> set (map b_id (t_books db)) then Inl IntegrityError
         else if b_content_id row \<in> set (map b_content_id (t_books db)) then Inl IntegrityError
         else if Some (b_content_id row) \<notin> set (map c_id (t_content db)) then Inl IntegrityError
         else Inr (db\<lparr>t_books := t_books db @ [row]\<rparr>, EBook row))"
| "persist db (EAuthor a) =
     (let row = (case a_id a of
                   None \<Rightarrow> a\<lparr>a_id := Some (next_id (map a_id (t_authors db)))\<rparr>
                 | Some _ \<Rightarrow> a)
      in if a_id row \<in> set (map a_id (t_authors db)) then Inl IntegrityError
         else Inr (db\<lparr>t_authors := t_authors db @ [row]\<rparr>, EAuthor row))"
| "persist db (ECategory g) =
     (let row = (case cat_id g of
                   None \<Rightarrow> g\<lparr>cat_id := Some (next_id (map cat_id (t_categories db)))\<rparr>
                 | Some _ \<Rightarrow> g)
      in if cat_id row \<in> set (map cat_id (t_categories db)) then Inl IntegrityError
         else if cat_name row \<in> set (map cat_name (t_categories db)) then Inl IntegrityError
         else if (case cat_parent_id row of
                    None \<Rightarrow> False
                  | Some p \<Rightarrow> Some p \<notin> set (map cat_id (t_categories db)))
              then Inl IntegrityError
         else Inr (db\<lparr>t_categories := t_categories db @ [row]\<rparr>, ECategory row))"
| "persist db (EContentAuthor j) =
     (if (ca_content_id j, ca_author_id j)
           \<in> set (map (\<lambda>r. (ca_content_id r, ca_author_id r)) (t_content_authors db))
      then Inl IntegrityError
      else if Some (ca_content_id j) \<notin> set (map c_id (t_content db)) then Inl IntegrityError
      else if Some (ca_author_id j) \<notin> set (map a_id (t_authors db)) then Inl IntegrityError
      else Inr (db\<lparr>t_content_authors := t_content_authors db @ [j]\<rparr>, EContentAuthor j))"
| "persist db (EContentCategory j) =
     (if (cc_content_id j, cc_category_id j)
           \<in> set (map (\<lambda>r. (cc_content_id r, cc_category_id r)) (t_content_categories db))
      then Inl IntegrityError
      else if Some (cc_content_id j) \<notin> set (map c_id (t_content db)) then Inl IntegrityError
      else if Some (cc_category_id j) \<notin> set (map cat_id (t_categories db))
      then Inl IntegrityError
      else Inr (db\<lparr>t_content_categories := t_content_categories db @ [j]\<rparr>,
                EContentCategory j))"

text \<open>The flush writes the pending objects in the order they were added.\<close>

fun flush :: "store \<Rightarrow> entity list \<Rightarrow> error + store \<times> entity list" where
  "flush db [] = Inr (db, [])"
| "flush db (obj # objs) =
     (case persist db obj of
        Inl e \<Rightarrow> Inl e
      | Inr (db', obj') \<Rightarrow>
          (case flush db' objs of
             Inl e \<Rightarrow> Inl e
           | Inr (db'', objs') \<Rightarrow> Inr (db'', obj' # objs')))"

text \<open>
  \<open>session.commit()\<close>: flush, then commit. When a statement of the flush fails, the
  engine aborts the transaction, so the store stays as the last commit left it, and the
  error is raised. On success the flushed objects are returned, since the session has
  written their primary keys into them.
\<close>

definition session_commit ::
  "session \<Rightarrow> store \<Rightarrow> (error + entity list) \<times> session \<times> store" where
  "session_commit session db =
     (case flush db (pending session) of
        Inl e \<Rightarrow> (Inl e, session, db)
      | Inr (db', objs) \<Rightarrow> (Inr objs, session\<lparr>pending := []\<rparr>, db'))"

text \<open>\<open>session.get(Content, content_id)\<close>\<close>

definition session_get :: "store \<Rightarrow> int \<Rightarrow> Content option" where
  "session_get db content_id = find (\<lambda>r. c_id r = Some content_id) (t_content db)"

text \<open>\<open>session.refresh(content)\<close> loads the row of the object's primary key again.\<close>

definition session_refresh :: "store \<Rightarrow> Content \<Rightarrow> error + Content" where
  "session_refresh db content =
     (case c_id content of
        None \<Rightarrow> Inl InvalidRequestError
      | Some i \<Rightarrow>
          (case session_get db i of
             None \<Rightarrow> Inl InvalidRequestError
           | Some row \<Rightarrow> Inr row))"

section \<open>SQL operators\<close>

text \<open>Case folding of ILIKE, on the ASCII letters.\<close>

definition lower_char :: "char \<Rightarrow> char" where
  "lower_char c =
     (if CHR ''A'' \<le> c \<and> c \<le> CHR ''Z'' then char_of (of_char c + (32::nat)) else c)"

text \<open>
  \<open>col.ilike(pattern)\<close>: in the pattern \<open>%\<close> stands for any sequence of characters,
  \<open>_\<close> for any one character, and a backslash makes the next character literal; all
  other characters match themselves up to case. A pattern that ends in a lone backslash
  is rejected by the engine; the services only build patterns that end in \<open>%\<close>, and
  the function answers False there.
\<close>

fun ilike :: "string \<Rightarrow> string \<Rightarrow> bool" where
  "ilike s [] = (s = [])"
| "ilike s (p # ps) =
     (if p = CHR ''%'' then
        (ilike s ps \<or> (case s of [] \<Rightarrow> False | _ # t \<Rightarrow> ilike t (p # ps)))
      else if p = CHR ''_'' then
        (case s of [] \<Rightarrow> False | _ # t \<Rightarrow> ilike t ps)
      else if p = CHR 0x5C then
        (case ps of
           [] \<Rightarrow> False
         | q # qs \<Rightarrow>
             (case s of [] \<Rightarrow> False | c # t \<Rightarrow> lower_char c = lower_char q \<and> ilike t qs))
      else
        (case s of [] \<Rightarrow> False | c # t \<Rightarrow> lower_char c = lower_char p \<and> ilike t ps))"

text \<open>The f-string \<open>f"%{query}%"\<close>\<close>

definition like_pattern :: "string \<Rightarrow> string" where
  "like_pattern query = CHR ''%'' # query @ [CHR ''%'']"

text \<open>
  A SELECT statement is built step by step, as the query builder of the source does, and
  run against the store by \<open>session_exec\<close>. SQL leaves the order of rows with equal
  sort keys open; here they keep their table order.
\<close>

type_synonym 'r select = "store \<Rightarrow> 'r list"

definition select :: "(store \<Rightarrow> 'r list) \<Rightarrow> 'r select" where
  "select tbl = tbl"

definition where_clause :: "'r select \<Rightarrow> ('r \<Rightarrow> bool) \<Rightarrow> 'r select" where
  "where_clause stmt cond = (\<lambda>db. filter cond (stmt db))"

definition join :: "'a select \<Rightarrow> (store \<Rightarrow> 'b list) \<Rightarrow> ('a \<Rightarrow> 'b \<Rightarrow> bool) \<Rightarrow> ('a \<times> 'b) select" where
  "join stmt tbl on_clause =
     (\<lambda>db. concat (map (\<lambda>a. map (\<lambda>j. (a, j)) (filter (on_clause a) (tbl db))) (stmt db)))"

definition order_by_desc :: "'r select \<Rightarrow> ('r \<Rightarrow> int) \<Rightarrow> 'r select" where
  "order_by_desc stmt key = (\<lambda>db. sort_key (\<lambda>r. - key r) (stmt db))"

definition order_by :: "'r select \<Rightarrow> ('r \<Rightarrow> 'k::linorder) \<Rightarrow> 'r select" where
  "order_by stmt key = (\<lambda>db. sort_key key (stmt db))"

definition limit :: "'r select \<Rightarrow> nat \<Rightarrow> 'r select" where
  "limit stmt n = (\<lambda>db. take n (stmt db))"

definition session_exec :: "store \<Rightarrow> 'r select \<Rightarrow> 'r list" where
  "session_exec db stmt = stmt db"

text \<open>\<open>.first()\<close>\<close>

definition first :: "'r list \<Rightarrow> 'r option" where
  "first rows = (case rows of [] \<Rightarrow> None | r # _ \<Rightarrow> Some r)"

section \<open>ContentService (app/content_service.py)\<close>

text \<open>
  Every service function takes the store and returns its result together with the store
  it leaves behind. \<open>limit\<close> is a row count.
\<close>

definition search_content ::
  "store \<Rightarrow> string \<Rightarrow> ContentType option \<Rightarrow> bool \<Rightarrow> nat \<Rightarrow> Content list \<times> store" where
  "search_content db query content_type available_only lim =
     (let stmt = select t_content;
          stmt = (if query \<noteq> [] then
                    where_clause stmt
                      (\<lambda>c. ilike (c_title c) (like_pattern query)
                          \<or> ilike (c_description c) (like_pattern query))
                  else stmt);
          stmt = (case content_type of
                    None \<Rightarrow> stmt
                  | Some ct \<Rightarrow> where_clause stmt (\<lambda>c. c_content_type c = ct));
          stmt = (if available_only then where_clause stmt (\<lambda>c. c_status c = AVAILABLE)
                  else stmt);
          stmt = order_by_desc stmt c_created_at;
          stmt = limit stmt lim
      in (session_exec db stmt, db))"

definition get_content_by_id :: "store \<Rightarrow> int \<Rightarrow> Content option \<times> store" where
  "get_content_by_id db content_id = (session_get db content_id, db)"

definition get_books :: "store \<Rightarrow> nat \<Rightarrow> Content list \<times> store" where
  "get_books db lim =
     (let stmt = limit
                   (order_by_desc
                      (where_clause (select t_content) (\<lambda>c. c_content_type c = BOOK))
                      c_created_at)
                   lim
      in (session_exec db stmt, db))"

definition get_content_authors :: "store \<Rightarrow> int \<Rightarrow> Author list \<times> store" where
  "get_content_authors db content_id =
     (let stmt = where_clause
                   (join (select t_authors) t_content_authors
                      (\<lambda>a j. a_id a = Some (ca_author_id j)))
                   (\<lambda>(a, j). ca_content_id j = content_id)
      in (map fst (session_exec db stmt), db))"

definition get_content_categories :: "store \<Rightarrow> int \<Rightarrow> Category list \<times> store" where
  "get_content_categories db content_id =
     (let stmt = where_clause
                   (join (select t_categories) t_content_categories
                      (\<lambda>g j. cat_id g = Some (cc_category_id j)))
                   (\<lambda>(g, j). cc_content_id j = content_id)
      in (map fst (session_exec db stmt), db))"

datatype extended_info =
    ExtBook Book
  | ExtArticle Article
  | ExtMagazine Magazine
  | ExtMultimedia Multimedia

record details =
  d_content :: Content
  d_authors :: "Author list"
  d_categories :: "Category list"
  d_extended_info :: "extended_info option"

definition get_content_with_details :: "store \<Rightarrow> int \<Rightarrow> details option \<times> store" where
  "get_content_with_details db content_id =
     (case session_get db content_id of
        None \<Rightarrow> (None, db)
      | Some content \<Rightarrow>
          (let (authors, db) = get_content_authors db content_id;
               (categories, db) = get_content_categories db content_id;
               result = \<lparr>d_content = content, d_authors = authors,
                         d_categories = categories, d_extended_info = None\<rparr>;
               result =
                 (case c_content_type content of
                    BOOK \<Rightarrow>
                      result\<lparr>d_extended_info := map_option ExtBook (first (session_exec db
                        (where_clause (select t_books) (\<lambda>b. b_content_id b = content_id))))\<rparr>
                  | ARTICLE \<Rightarrow>
                      result\<lparr>d_extended_info := map_option ExtArticle (first (session_exec db
                        (where_clause (select t_articles) (\<lambda>r. ar_content_id r = content_id))))\<rparr>
                  | MAGAZINE \<Rightarrow>
                      result\<lparr>d_extended_info := map_option ExtMagazine (first (session_exec db
                        (where_clause (select t_magazines) (\<lambda>r. mg_content_id r = content_id))))\<rparr>
                  | MULTIMEDIA \<Rightarrow>
                      result\<lparr>d_extended_info := map_option ExtMultimedia (first (session_exec db
                        (where_clause (select t_multimedia)
                           (\<lambda>r. mm_content_id r = content_id))))\<rparr>)
           in (Some result, db)))"

text \<open>
  The body of the \<open>try\<close> block of \<open>create_book\<close>. An exception is a result \<open>Inl e\<close>,
  which leaves the block at once. After the first commit the variable \<open>content\<close> is the
  flushed object, which now carries its primary key. The flush of one object returns one
  object, so the last branch of that case distinction is never taken
  (\<open>create_book_failure\<close> below: the only error is the storage error).
\<close>

definition create_book_try ::
  "store \<Rightarrow> session \<Rightarrow> datetime \<times> datetime \<Rightarrow> ContentCreate \<Rightarrow> BookCreate \<Rightarrow> int list option
     \<Rightarrow> int list option \<Rightarrow> (error + Content option) \<times> session \<times> store" where
  "create_book_try db session now content_data book_data author_ids category_ids =
     (let content = Content_init content_data now;
          content = content\<lparr>c_content_type := BOOK\<rparr>;
          session = session_add session (EContent content)
      in case session_commit session db of
           (Inl e, session, db) \<Rightarrow> (Inl e, session, db)
         | (Inr flushed, session, db) \<Rightarrow>
             (case flushed of
                [EContent content] \<Rightarrow>
                  (case session_refresh db content of
                     Inl e \<Rightarrow> (Inl e, session, db)
                   | Inr content \<Rightarrow>
                       (case c_id content of
                          None \<Rightarrow> (Inr None, session, db)
                        | Some cid \<Rightarrow>
                            (let book = Book_init book_data cid;
                                 session = session_add session (EBook book);
                                 session =
                                   (case author_ids of
                                      None \<Rightarrow> session
                                    | Some ids \<Rightarrow>
                                        if ids = [] then session
                                        else fold (\<lambda>author_id session.
                                               session_add session (EContentAuthor
                                                 \<lparr>ca_content_id = cid, ca_author_id = author_id\<rparr>))
                                               ids session);
                                 session =
                                   (case category_ids of
                                      None \<Rightarrow> session
                                    | Some ids \<Rightarrow>
                                        if ids = [] then session
                                        else fold (\<lambda>category_id session.
                                               session_add session (EContentCategory
                                                 \<lparr>cc_content_id = cid,
                                                  cc_category_id = category_id\<rparr>))
                                               ids session)
                             in case session_commit session db of
                                  (Inl e, session, db) \<Rightarrow> (Inl e, session, db)
                                | (Inr _, session, db) \<Rightarrow>
                                    (case session_refresh db content of
                                       Inl e \<Rightarrow> (Inl e, session, db)
                                     | Inr content \<Rightarrow> (Inr (Some content), session, db)))))
              | _ \<Rightarrow> (Inl InvalidRequestError, session, db)))"

text \<open>\<open>except Exception as e: session.rollback(); raise e\<close>\<close>

definition create_book ::
  "store \<Rightarrow> datetime \<times> datetime \<Rightarrow> ContentCreate \<Rightarrow> BookCreate \<Rightarrow> int list option
     \<Rightarrow> int list option
     \<Rightarrow> (error + Content option) \<times> store" where
  "create_book db now content_data book_data author_ids category_ids =
     (case create_book_try db get_session now content_data book_data author_ids category_ids of
        (Inl e, session, db) \<Rightarrow> (let session = session_rollback session in (Inl e, db))
      | (Inr content, session, db) \<Rightarrow> (Inr content, db))"

definition update_content_status ::
  "store \<Rightarrow> datetime \<Rightarrow> int \<Rightarrow> ContentStatus \<Rightarrow> (error + bool) \<times> store" where
  "update_content_status db now content_id status =
     (let session = get_session
      in case session_get db content_id of
           None \<Rightarrow> (Inr False, db)
         | Some content \<Rightarrow>
             (let content = content\<lparr>c_status := status\<rparr>;
                  content = content\<lparr>c_updated_at := now\<rparr>;
                  session = session_add session (EContent content)
              in case session_commit session db of
                   (Inl e, session, db) \<Rightarrow> (Inl e, db)
                 | (Inr _, session, db) \<Rightarrow> (Inr True, db)))"

text \<open>
  \<open>count(content.id)\<close> counts the rows whose id is not NULL; \<open>count or 0\<close> turns an
  absent count into zero. The loop runs over the members of \<open>ContentType\<close> in the
  order of their declaration.
\<close>

definition or_zero :: "nat option \<Rightarrow> nat" where
  "or_zero n = (case n of None \<Rightarrow> 0 | Some k \<Rightarrow> if k = 0 then 0 else k)"

definition get_available_content_count :: "store \<Rightarrow> (ContentType \<rightharpoonup> nat) \<times> store" where
  "get_available_content_count db =
     (let counts =
            fold (\<lambda>content_type counts.
                    let stmt = where_clause (select t_content)
                                 (\<lambda>c. c_content_type c = content_type \<and> c_status c = AVAILABLE);
                        n = first [length (filter (\<lambda>c. c_id c \<noteq> None)
                                             (session_exec db stmt))]
                    in counts(content_type \<mapsto> or_zero n))
                 [BOOK, ARTICLE, MAGAZINE, MULTIMEDIA] Map.empty
      in (counts, db))"

text \<open>
  \<open>datetime.utcnow().replace(microsecond=0) - timedelta(days=days)\<close>, in microseconds.
\<close>

definition get_recent_content :: "store \<Rightarrow> datetime \<Rightarrow> int \<Rightarrow> nat \<Rightarrow> Content list \<times> store" where
  "get_recent_content db now days lim =
     (let cutoff_date = (now - now mod 1000000) - days * 86400000000;
          stmt = limit
                   (order_by_desc
                      (where_clause (select t_content) (\<lambda>c. c_created_at c \<ge> cutoff_date))
                      c_created_at)
                   lim
      in (session_exec db stmt, db))"

section \<open>AuthorService and CategoryService\<close>

definition get_all_authors :: "store \<Rightarrow> Author list \<times> store" where
  "get_all_authors db =
     (let stmt = order_by (select t_authors) (\<lambda>a. (a_last_name a, a_first_name a))
      in (session_exec db stmt, db))"

definition search_authors :: "store \<Rightarrow> string \<Rightarrow> Author list \<times> store" where
  "search_authors db query =
     (let stmt = order_by
                   (where_clause (select t_authors)
                      (\<lambda>a. ilike (a_first_name a) (like_pattern query)
                          \<or> ilike (a_last_name a) (like_pattern query)))
                   (\<lambda>a. (a_last_name a, a_first_name a))
      in (session_exec db stmt, db))"

definition create_author ::
  "store \<Rightarrow> string \<Rightarrow> string \<Rightarrow> string \<Rightarrow> datetime option \<Rightarrow> string option
     \<Rightarrow> (error + Author) \<times> store" where
  "create_author db first_name last_name biography birth_date website =
     (let session = get_session;
          author = \<lparr>a_id = None, a_first_name = first_name, a_last_name = last_name,
                    a_biography = biography, a_birth_date = birth_date, a_website = website\<rparr>;
          session = session_add session (EAuthor author)
      in case session_commit session db of
           (Inl e, session, db) \<Rightarrow> (Inl e, db)
         | (Inr flushed, session, db) \<Rightarrow>
             (case flushed of
                [EAuthor author] \<Rightarrow>
                  (case find (\<lambda>r. a_id r = a_id author) (t_authors db) of
                     None \<Rightarrow> (Inl InvalidRequestError, db)
                   | Some author \<Rightarrow> (Inr author, db))
              | _ \<Rightarrow> (Inl InvalidRequestError, db)))"

definition get_all_categories :: "store \<Rightarrow> Category list \<times> store" where
  "get_all_categories db =
     (let stmt = order_by (select t_categories) cat_name
      in (session_exec db stmt, db))"

definition get_root_categories :: "store \<Rightarrow> Category list \<times> store" where
  "get_root_categories db =
     (let stmt = order_by
                   (where_clause (select t_categories) (\<lambda>g. cat_parent_id g = None))
                   cat_name
      in (session_exec db stmt, db))"

definition create_category ::
  "store \<Rightarrow> string \<Rightarrow> string \<Rightarrow> int option \<Rightarrow> (error + Category) \<times> store" where
  "create_category db name description parent_id =
     (let session = get_session;
          category = \<lparr>cat_id = None, cat_name = name, cat_description = description,
                      cat_parent_id = parent_id\<rparr>;
          session = session_add session (ECategory category)
      in case session_commit session db of
           (Inl e, session, db) \<Rightarrow> (Inl e, db)
         | (Inr flushed, session, db) \<Rightarrow>
             (case flushed of
                [ECategory category] \<Rightarrow>
                  (case find (\<lambda>r. cat_id r = cat_id category) (t_categories db) of
                     None \<Rightarrow> (Inl InvalidRequestError, db)
                   | Some category \<Rightarrow> (Inr category, db))
              | _ \<Rightarrow> (Inl InvalidRequestError, db)))"

section \<open>Well-formed stores\<close>

text \<open>
  The constraints of the schema, as a predicate on the store: primary keys are present
  and unique, the unique columns hold no value twice, and every foreign key points to a
  stored row.
\<close>

definition wf_content :: "store \<Rightarrow> bool" where
  "wf_content db \<longleftrightarrow>
     None \<notin> set (map c_id (t_content db)) \<and> distinct (map c_id (t_content db))"

definition wf_books :: "store \<Rightarrow> bool" where
  "wf_books db \<longleftrightarrow>
     None \<notin> set (map b_id (t_books db)) \<and> distinct (map b_id (t_books db)) \<and>
     distinct (map b_content_id (t_books db)) \<and>
     list_all (\<lambda>b. Some (b_content_id b) \<in> set (map c_id (t_content db))) (t_books db)"

definition wf_authors :: "store \<Rightarrow> bool" where
  "wf_authors db \<longleftrightarrow>
     None \<notin> set (map a_id (t_authors db)) \<and> distinct (map a_id (t_authors db))"

definition wf_categories :: "store \<Rightarrow> bool" where
  "wf_categories db \<longleftrightarrow>
     None \<notin> set (map cat_id (t_categories db)) \<and> distinct (map cat_id (t_categories db)) \<and>
     distinct (map cat_name (t_categories db)) \<and>
     list_all (\<lambda>g. cat_parent_id g = None
                \<or> cat_parent_id g \<in> set (map cat_id (t_categories db)))
       (t_categories db)"

definition wf_content_authors :: "store \<Rightarrow> bool" where
  "wf_content_authors db \<longleftrightarrow>
     distinct (map (\<lambda>j. (ca_content_id j, ca_author_id j)) (t_content_authors db)) \<and>
     list_all (\<lambda>j. Some (ca_content_id j) \<in> set (map c_id (t_content db))
                \<and> Some (ca_author_id j) \<in> set (map a_id (t_authors db)))
       (t_content_authors db)"

definition wf_content_categories :: "store \<Rightarrow> bool" where
  "wf_content_categories db \<longleftrightarrow>
     distinct (map (\<lambda>j. (cc_content_id j, cc_category_id j)) (t_content_categories db)) \<and>
     list_all (\<lambda>j. Some (cc_content_id j) \<in> set (map c_id (t_content db))
                \<and> Some (cc_category_id j) \<in> set (map cat_id (t_categories db)))
       (t_content_categories db)"

definition wf_store :: "store \<Rightarrow> bool" where
  "wf_store db \<longleftrightarrow>
     wf_content db \<and> wf_books db \<and> wf_authors db \<and> wf_categories db \<and>
     wf_content_authors db \<and> wf_content_categories db"

section \<open>Notions for stating the results\<close>

text \<open>The ids passed to \<open>create_book\<close>: an absent list adds nothing.\<close>

definition id_list :: "int list option \<Rightarrow> int list" where
  "id_list ids = (case ids of None \<Rightarrow> [] | Some xs \<Rightarrow> xs)"

text \<open>The junction rows that \<open>create_book\<close> adds for a content id.\<close>

definition author_links :: "int \<Rightarrow> int list \<Rightarrow> ContentAuthor list" where
  "author_links cid ids = map (\<lambda>a. \<lparr>ca_content_id = cid, ca_author_id = a\<rparr>) ids"

definition category_links :: "int \<Rightarrow> int list \<Rightarrow> ContentCategory list" where
  "category_links cid ids = map (\<lambda>g. \<lparr>cc_content_id = cid, cc_category_id = g\<rparr>) ids"

text \<open>
  The junction rows can be inserted: no id is given twice, no such row is stored yet, and
  every id names a stored author (category).
\<close>

definition author_links_ok :: "store \<Rightarrow> int \<Rightarrow> int list \<Rightarrow> bool" where
  "author_links_ok db cid ids \<longleftrightarrow>
     distinct ids \<and>
     list_all (\<lambda>a. (cid, a) \<notin> set (map (\<lambda>r. (ca_content_id r, ca_author_id r)) (t_content_authors db))
                 \<and> Some a \<in> set (map a_id (t_authors db))) ids"

definition category_links_ok :: "store \<Rightarrow> int \<Rightarrow> int list \<Rightarrow> bool" where
  "category_links_ok db cid ids \<longleftrightarrow>
     distinct ids \<and>
     list_all (\<lambda>g. (cid, g) \<notin> set (map (\<lambda>r. (cc_content_id r, cc_category_id r)) (t_content_categories db))
                 \<and> Some g \<in> set (map cat_id (t_categories db))) ids"

text \<open>The Content row and the Book row that \<open>create_book\<close> writes.\<close>

definition create_book_content ::
  "store \<Rightarrow> datetime \<times> datetime \<Rightarrow> ContentCreate \<Rightarrow> Content" where
  "create_book_content db now content_data =
     (Content_init content_data now)
       \<lparr>c_content_type := BOOK, c_id := Some (next_id (map c_id (t_content db)))\<rparr>"

definition create_book_row :: "store \<Rightarrow> BookCreate \<Rightarrow> Book" where
  "create_book_row db book_data =
     (Book_init book_data (next_id (map c_id (t_content db))))
       \<lparr>b_id := Some (next_id (map b_id (t_books db)))\<rparr>"

text \<open>
  The other filters of \<open>search_content\<close>: the content type, when one is given, and the
  status filter, when it is switched on.
\<close>

definition passes_filters :: "ContentType option \<Rightarrow> bool \<Rightarrow> Content \<Rightarrow> bool" where
  "passes_filters content_type available_only c \<longleftrightarrow>
     (case content_type of None \<Rightarrow> True | Some ct \<Rightarrow> c_content_type c = ct)
     \<and> (available_only \<longrightarrow> c_status c = AVAILABLE)"

text \<open>
  The specification's reading of the text search, to be compared with \<open>ilike\<close>: the
  query occurs in the string as a contiguous substring, letter case ignored.
\<close>

definition contains_ci :: "string \<Rightarrow> string \<Rightarrow> bool" where
  "contains_ci query s \<longleftrightarrow> sublist (map lower_char query) (map lower_char s)"

text \<open>A query with none of the characters that LIKE gives a meaning to.\<close>

definition plain_query :: "string \<Rightarrow> bool" where
  "plain_query query \<longleftrightarrow>
     list_all (\<lambda>c. c \<noteq> CHR ''%'' \<and> c \<noteq> CHR ''_'' \<and> c \<noteq> CHR 0x5C) query"

section \<open>A sample store\<close>

text \<open>
  A small store in the style of \<open>app/sample_data.py\<close>, on which the results below are
  instantiated: three content items, two of them books, two authors, three categories
  (one of them below another) and the junction rows.
\<close>

definition sample_store :: store where
  "sample_store =
     \<lparr>t_content =
        [\<lparr>c_id = Some 1, c_title = ''Pride and Prejudice'',
          c_description = ''A novel of manners'', c_content_type = BOOK,
          c_status = AVAILABLE, c_isbn = None, c_language = ''English'',
          c_publication_date = None, c_created_at = 100, c_updated_at = 100,
          c_tags = [''romance''], c_content_metadata = []\<rparr>,
         \<lparr>c_id = Some 2, c_title = ''PYTHON Programming'',
          c_description = ''An introduction'', c_content_type = BOOK,
          c_status = AVAILABLE, c_isbn = None, c_language = ''English'',
          c_publication_date = None, c_created_at = 200, c_updated_at = 200,
          c_tags = [], c_content_metadata = []\<rparr>,
         \<lparr>c_id = Some 3, c_title = ''Nature Weekly'',
          c_description = ''Issue 12'', c_content_type = MAGAZINE,
          c_status = CHECKED_OUT, c_isbn = None, c_language = ''English'',
          c_publication_date = None, c_created_at = 300, c_updated_at = 300,
          c_tags = [], c_content_metadata = []\<rparr>],
      t_books =
        [\<lparr>b_id = Some 1, b_content_id = 1, b_page_count = Some 432,
          b_publisher = ''T. Egerton'', b_edition = ''First Edition'',
          b_format = ''paperback''\<rparr>,
         \<lparr>b_id = Some 2, b_content_id = 2, b_page_count = None,
          b_publisher = [], b_edition = [], b_format = ''paperback''\<rparr>],
      t_articles = [],
      t_magazines =
        [\<lparr>mg_id = Some 1, mg_content_id = 3, mg_issue_number = ''12'',
          mg_frequency = ''weekly'', mg_publisher = []\<rparr>],
      t_multimedia = [],
      t_authors =
        [\<lparr>a_id = Some 1, a_first_name = ''Jane'', a_last_name = ''Austen'',
          a_biography = [], a_birth_date = None, a_website = None\<rparr>,
         \<lparr>a_id = Some 2, a_first_name = ''Guido'', a_last_name = ''van Rossum'',
          a_biography = [], a_birth_date = None, a_website = None\<rparr>],
      t_categories =
        [\<lparr>cat_id = Some 1, cat_name = ''Fiction'', cat_description = [],
          cat_parent_id = None\<rparr>,
         \<lparr>cat_id = Some 2, cat_name = ''Romance'', cat_description = [],
          cat_parent_id = Some 1\<rparr>,
         \<lparr>cat_id = Some 3, cat_name = ''Programming'', cat_description = [],
          cat_parent_id = None\<rparr>],
      t_content_authors =
        [\<lparr>ca_content_id = 1, ca_author_id = 1\<rparr>,
         \<lparr>ca_content_id = 2, ca_author_id = 2\<rparr>],
      t_content_categories =
        [\<lparr>cc_content_id = 1, cc_category_id = 1\<rparr>,
         \<lparr>cc_content_id = 1, cc_category_id = 2\<rparr>,
         \<lparr>cc_content_id = 2, cc_category_id = 3\<rparr>]\<rparr>"

definition sample_content_data :: ContentCreate where
  "sample_content_data =
     \<lparr>new_title = ''Emma'', new_description = ''A comedy of manners'',
      new_content_type = ARTICLE, new_isbn = None, new_language = ''English'',
      new_publication_date = None, new_tags = [''romance''], new_content_metadata = []\<rparr>"

definition sample_book_data :: BookCreate where
  "sample_book_data =
     \<lparr>new_page_count = Some 474, new_publisher = ''John Murray'',
      new_edition = ''First Edition'', new_format = ''paperback''\<rparr>"

section \<open>Queries\<close>

lemmas query_defs = select_def where_clause_def join_def order_by_desc_def order_by_def
  limit_def session_exec_def

lemma search_content_rows:
  "fst (search_content db query content_type available_only lim) =
     take lim (sort_key (\<lambda>c. - c_created_at c)
       (filter (\<lambda>c. (query \<noteq> [] \<longrightarrow> ilike (c_title c) (like_pattern query)
                                   \<or> ilike (c_description c) (like_pattern query))
                  \<and> (case content_type of None \<Rightarrow> True | Some ct \<Rightarrow> c_content_type c = ct)
                  \<and> (available_only \<longrightarrow> c_status c = AVAILABLE))
          (t_content db)))"
  by (simp add: search_content_def query_defs Let_def split: option.split)

lemma sorted_desc_sort_key:
  fixes key :: "'r \<Rightarrow> int"
  shows "sorted_wrt (\<lambda>x y. key x \<ge> key y) (sort_key (\<lambda>r. - key r) rows)"
proof -
  have "sorted (map (\<lambda>r. - key r) (sort_key (\<lambda>r. - key r) rows))"
    by (rule sorted_sort_key)
  then show ?thesis
    by (simp add: sorted_map)
qed

lemma get_root_categories_rows:
  "fst (get_root_categories db) =
     sort_key cat_name (filter (\<lambda>g. cat_parent_id g = None) (t_categories db))"
  by (simp add: get_root_categories_def query_defs)

lemma or_zero_Some: "or_zero (Some n) = n"
  by (simp add: or_zero_def)

lemma get_available_content_count_map:
  "fst (get_available_content_count db) content_type =
     Some (length (filter (\<lambda>c. c_id c \<noteq> None \<and> c_content_type c = content_type
                               \<and> c_status c = AVAILABLE) (t_content db)))"
  by (cases content_type)
    (simp_all add: get_available_content_count_def query_defs first_def or_zero_Some
      Let_def conj_ac)

subsection \<open>Reads return the store they were given\<close>

lemma snd_search_content: "snd (search_content db query content_type available_only lim) = db"
  by (simp add: search_content_def Let_def)

lemma snd_get_content_by_id: "snd (get_content_by_id db content_id) = db"
  by (simp add: get_content_by_id_def)

lemma snd_get_books: "snd (get_books db lim) = db"
  by (simp add: get_books_def Let_def)

lemma snd_get_content_authors: "snd (get_content_authors db content_id) = db"
  by (simp add: get_content_authors_def Let_def)

lemma snd_get_content_categories: "snd (get_content_categories db content_id) = db"
  by (simp add: get_content_categories_def Let_def)

lemma snd_get_content_with_details: "snd (get_content_with_details db content_id) = db"
  by (simp add: get_content_with_details_def Let_def get_content_authors_def
      get_content_categories_def split: option.split prod.split)

lemma snd_get_available_content_count: "snd (get_available_content_count db) = db"
  by (simp add: get_available_content_count_def Let_def)

lemma snd_get_recent_content: "snd (get_recent_content db now days lim) = db"
  by (simp add: get_recent_content_def Let_def)

lemma snd_get_all_authors: "snd (get_all_authors db) = db"
  by (simp add: get_all_authors_def Let_def)

lemma snd_search_authors: "snd (search_authors db query) = db"
  by (simp add: search_authors_def Let_def)

lemma snd_get_all_categories: "snd (get_all_categories db) = db"
  by (simp add: get_all_categories_def Let_def)

lemma snd_get_root_categories: "snd (get_root_categories db) = db"
  by (simp add: get_root_categories_def Let_def)

section \<open>Flush and commit\<close>

lemma next_id_upper: "Some k \<in> set ids \<Longrightarrow> k < next_id ids"
  by (induction ids) (auto simp: next_id_def split: option.splits)

lemma next_id_fresh: "Some (next_id ids) \<notin> set ids"
  using next_id_upper[of "next_id ids" ids] by auto

lemma flush_append:
  "flush db (xs @ ys) =
     (case flush db xs of
        Inl e \<Rightarrow> Inl e
      | Inr (db1, xs') \<Rightarrow>
          (case flush db1 ys of
             Inl e \<Rightarrow> Inl e
           | Inr (db2, ys') \<Rightarrow> Inr (db2, xs' @ ys')))"
  by (induction xs arbitrary: db) (auto split: sum.splits)

lemma flush_author_links:
  "Some cid \<in> set (map c_id (t_content db)) \<Longrightarrow>
   flush db (map EContentAuthor (author_links cid ids)) =
     (if author_links_ok db cid ids
      then Inr (db\<lparr>t_content_authors := t_content_authors db @ author_links cid ids\<rparr>,
                map EContentAuthor (author_links cid ids))
      else Inl IntegrityError)"
proof (induction ids arbitrary: db)
  case Nil
  then show ?case by (simp add: author_links_def author_links_ok_def)
next
  case (Cons a ids)
  let ?j = "\<lparr>ca_content_id = cid, ca_author_id = a\<rparr>"
  let ?db1 = "db\<lparr>t_content_authors := t_content_authors db @ [?j]\<rparr>"
  have c1: "Some cid \<in> set (map c_id (t_content ?db1))" using Cons.prems by simp
  have ok: "author_links_ok ?db1 cid ids \<longleftrightarrow> a \<notin> set ids \<and> author_links_ok db cid ids"
    by (auto simp: author_links_ok_def list_all_iff)
  show ?case
  proof (cases "(cid, a) \<notin> set (map (\<lambda>r. (ca_content_id r, ca_author_id r)) (t_content_authors db))
                 \<and> Some a \<in> set (map a_id (t_authors db))")
    case True
    then have p: "persist db (EContentAuthor ?j) = Inr (?db1, EContentAuthor ?j)"
      using Cons.prems by (simp del: set_map)
    have al: "author_links cid (a # ids) = ?j # author_links cid ids"
      by (simp add: author_links_def)
    have ok2: "author_links_ok db cid (a # ids) \<longleftrightarrow> a \<notin> set ids \<and> author_links_ok db cid ids"
      using True by (auto simp: author_links_ok_def)
    have "flush db (map EContentAuthor (author_links cid (a # ids))) =
            (case flush ?db1 (map EContentAuthor (author_links cid ids)) of
               Inl e \<Rightarrow> Inl e
             | Inr (db'', objs') \<Rightarrow> Inr (db'', EContentAuthor ?j # objs'))"
      by (simp only: al list.map flush.simps p sum.case prod.case)
    also have "\<dots> = (if author_links_ok db cid (a # ids)
      then Inr (db\<lparr>t_content_authors := t_content_authors db @ author_links cid (a # ids)\<rparr>,
                map EContentAuthor (author_links cid (a # ids)))
      else Inl IntegrityError)"
      by (simp add: Cons.IH[OF c1] ok ok2 al)
    finally show ?thesis .
  next
    case False
    then have p: "persist db (EContentAuthor ?j) = Inl IntegrityError"
      by (auto simp del: set_map)
    have al: "author_links cid (a # ids) = ?j # author_links cid ids"
      by (simp add: author_links_def)
    have ok2: "\<not> author_links_ok db cid (a # ids)"
      using False by (auto simp: author_links_ok_def)
    show ?thesis
      by (simp only: al list.map flush.simps p ok2) simp
  qed
qed

lemma flush_category_links:
  "Some cid \<in> set (map c_id (t_content db)) \<Longrightarrow>
   flush db (map EContentCategory (category_links cid ids)) =
     (if category_links_ok db cid ids
      then Inr (db\<lparr>t_content_categories := t_content_categories db @ category_links cid ids\<rparr>,
                map EContentCategory (category_links cid ids))
      else Inl IntegrityError)"
proof (induction ids arbitrary: db)
  case Nil
  then show ?case by (simp add: category_links_def category_links_ok_def)
next
  case (Cons a ids)
  let ?j = "\<lparr>cc_content_id = cid, cc_category_id = a\<rparr>"
  let ?db1 = "db\<lparr>t_content_categories := t_content_categories db @ [?j]\<rparr>"
  have c1: "Some cid \<in> set (map c_id (t_content ?db1))" using Cons.prems by simp
  have ok: "category_links_ok ?db1 cid ids \<longleftrightarrow> a \<notin> set ids \<and> category_links_ok db cid ids"
    by (auto simp: category_links_ok_def list_all_iff)
  show ?case
  proof (cases "(cid, a) \<notin> set (map (\<lambda>r. (cc_content_id r, cc_category_id r)) (t_content_categories db))
                 \<and> Some a \<in> set (map cat_id (t_categories db))")
    case True
    then have p: "persist db (EContentCategory ?j) = Inr (?db1, EContentCategory ?j)"
      using Cons.prems by (simp del: set_map)
    have al: "category_links cid (a # ids) = ?j # category_links cid ids"
      by (simp add: category_links_def)
    have ok2: "category_links_ok db cid (a # ids) \<longleftrightarrow> a \<notin> set ids \<and> category_links_ok db cid ids"
      using True by (auto simp: category_links_ok_def)
    have "flush db (map EContentCategory (category_links cid (a # ids))) =
            (case flush ?db1 (map EContentCategory (category_links cid ids)) of
               Inl e \<Rightarrow> Inl e
             | Inr (db'', objs') \<Rightarrow> Inr (db'', EContentCategory ?j # objs'))"
      by (simp only: al list.map flush.simps p sum.case prod.case)
    also have "\<dots> = (if category_links_ok db cid (a # ids)
      then Inr (db\<lparr>t_content_categories := t_content_categories db @ category_links cid (a # ids)\<rparr>,
                map EContentCategory (category_links cid (a # ids)))
      else Inl IntegrityError)"
      by (simp add: Cons.IH[OF c1] ok ok2 al)
    finally show ?thesis .
  next
    case False
    then have p: "persist db (EContentCategory ?j) = Inl IntegrityError"
      by (auto simp del: set_map)
    have al: "category_links cid (a # ids) = ?j # category_links cid ids"
      by (simp add: category_links_def)
    have ok2: "\<not> category_links_ok db cid (a # ids)"
      using False by (auto simp: category_links_ok_def)
    show ?thesis
      by (simp only: al list.map flush.simps p ok2) simp
  qed
qed

lemma find_append_fresh:
  "\<forall>x\<in>set xs. \<not> P x \<Longrightarrow> P y \<Longrightarrow> find P (xs @ [y]) = Some y"
  by (induction xs) auto

lemma create_book_first_commit:
  "session_commit (session_add get_session
       (EContent ((Content_init content_data now)\<lparr>c_content_type := BOOK\<rparr>))) db =
     (Inr [EContent (create_book_content db now content_data)], \<lparr>pending = []\<rparr>,
      db\<lparr>t_content := t_content db @ [create_book_content db now content_data]\<rparr>)"
  by (simp add: session_commit_def session_add_def get_session_def Content_init_def
      create_book_content_def Let_def)

lemma create_book_refresh:
  "t_content db1 = t_content db @ [create_book_content db now content_data] \<Longrightarrow>
   session_refresh db1 (create_book_content db now content_data) =
     Inr (create_book_content db now content_data)"
proof -
  assume t: "t_content db1 = t_content db @ [create_book_content db now content_data]"
  let ?row = "create_book_content db now content_data"
  have id: "c_id ?row = Some (next_id (map c_id (t_content db)))"
    by (simp add: create_book_content_def)
  have "\<forall>x\<in>set (t_content db). \<not> c_id x = Some (next_id (map c_id (t_content db)))"
    using next_id_fresh[of "map c_id (t_content db)"] by (auto simp: image_iff)
  from find_append_fresh[of "t_content db" "\<lambda>r. c_id r = Some (next_id (map c_id (t_content db)))",
      OF this id]
  have "session_get db1 (next_id (map c_id (t_content db))) = Some ?row"
    unfolding session_get_def t .
  then show ?thesis by (simp add: session_refresh_def id)
qed

lemma persist_new_book:
  "Some cid \<in> set (map c_id (t_content db1)) \<Longrightarrow>
   persist db1 (EBook (Book_init book_data cid)) =
     (if cid \<in> set (map b_content_id (t_books db1)) then Inl IntegrityError
      else Inr (db1\<lparr>t_books := t_books db1 @
                  [(Book_init book_data cid)\<lparr>b_id := Some (next_id (map b_id (t_books db1)))\<rparr>]\<rparr>,
                EBook ((Book_init book_data cid)\<lparr>b_id := Some (next_id (map b_id (t_books db1)))\<rparr>)))"
  using next_id_fresh[of "map b_id (t_books db1)"]
  by (simp add: Book_init_def Let_def del: set_map)

lemma author_links_ok_cong:
  "t_content_authors db' = t_content_authors db \<Longrightarrow> t_authors db' = t_authors db \<Longrightarrow>
   author_links_ok db' cid ids = author_links_ok db cid ids"
  by (simp add: author_links_ok_def)

lemma category_links_ok_cong:
  "t_content_categories db' = t_content_categories db \<Longrightarrow> t_categories db' = t_categories db \<Longrightarrow>
   category_links_ok db' cid ids = category_links_ok db cid ids"
  by (simp add: category_links_ok_def)

lemma create_book_second_flush:
  assumes c: "Some cid \<in> set (map c_id (t_content db1))"
  shows "flush db1 (EBook (Book_init book_data cid) # map EContentAuthor (author_links cid aids)
             @ map EContentCategory (category_links cid gids)) =
     (if cid \<notin> set (map b_content_id (t_books db1)) \<and> author_links_ok db1 cid aids
          \<and> category_links_ok db1 cid gids
      then Inr (db1\<lparr>t_books := t_books db1 @
                  [(Book_init book_data cid)\<lparr>b_id := Some (next_id (map b_id (t_books db1)))\<rparr>],
                  t_content_authors := t_content_authors db1 @ author_links cid aids,
                  t_content_categories := t_content_categories db1 @ category_links cid gids\<rparr>,
                EBook ((Book_init book_data cid)\<lparr>b_id := Some (next_id (map b_id (t_books db1)))\<rparr>)
                  # map EContentAuthor (author_links cid aids)
                  @ map EContentCategory (category_links cid gids))
      else Inl IntegrityError)"
proof -
  let ?brow = "(Book_init book_data cid)\<lparr>b_id := Some (next_id (map b_id (t_books db1)))\<rparr>"
  let ?db2 = "db1\<lparr>t_books := t_books db1 @ [?brow]\<rparr>"
  let ?db3 = "?db2\<lparr>t_content_authors := t_content_authors ?db2 @ author_links cid aids\<rparr>"
  have c2: "Some cid \<in> set (map c_id (t_content ?db2))" using c by simp
  have c3: "Some cid \<in> set (map c_id (t_content ?db3))" using c by simp
  have fa: "flush ?db2 (map EContentAuthor (author_links cid aids)) =
      (if author_links_ok db1 cid aids then Inr (?db3, map EContentAuthor (author_links cid aids))
       else Inl IntegrityError)"
    using flush_author_links[OF c2, of aids] author_links_ok_cong[of ?db2 db1 cid aids]
    by simp
  have fc: "flush ?db3 (map EContentCategory (category_links cid gids)) =
      (if category_links_ok db1 cid gids
       then Inr (?db3\<lparr>t_content_categories := t_content_categories ?db3 @ category_links cid gids\<rparr>,
                 map EContentCategory (category_links cid gids))
       else Inl IntegrityError)"
    using flush_category_links[OF c3, of gids] category_links_ok_cong[of ?db3 db1 cid gids]
    by simp
  have step: "flush ?db2 (map EContentAuthor (author_links cid aids)
                 @ map EContentCategory (category_links cid gids)) =
      (if author_links_ok db1 cid aids \<and> category_links_ok db1 cid gids
       then Inr (?db3\<lparr>t_content_categories := t_content_categories ?db3 @ category_links cid gids\<rparr>,
                 map EContentAuthor (author_links cid aids)
                   @ map EContentCategory (category_links cid gids))
       else Inl IntegrityError)"
    using fa fc by (simp add: flush_append)
  show ?thesis
    using step by (simp add: persist_new_book[OF c] del: persist.simps)
qed

lemma add_links_session:
  "(case ids of
      None \<Rightarrow> session
    | Some xs \<Rightarrow> if xs = [] then session
                else fold (\<lambda>x s. session_add s (f x)) xs session) =
   session\<lparr>pending := pending session @ map f (id_list ids)\<rparr>"
proof -
  have "fold (\<lambda>x s. session_add s (f x)) xs s = s\<lparr>pending := pending s @ map f xs\<rparr>" for xs s
    by (induction xs arbitrary: s) (simp_all add: session_add_def)
  then show ?thesis
    by (simp add: id_list_def split: option.split)
qed

lemma create_book_refresh_first:
  "session_refresh (db\<lparr>t_content := t_content db @ [create_book_content db now content_data]\<rparr>)
     (create_book_content db now content_data) = Inr (create_book_content db now content_data)"
  by (rule create_book_refresh) simp

lemma create_book_try_eq:
  "create_book_try db get_session now content_data book_data author_ids category_ids =
     (let cid = next_id (map c_id (t_content db));
          content = create_book_content db now content_data;
          db1 = db\<lparr>t_content := t_content db @ [content]\<rparr>
      in if cid \<notin> set (map b_content_id (t_books db))
            \<and> author_links_ok db cid (id_list author_ids)
            \<and> category_links_ok db cid (id_list category_ids)
         then (Inr (Some content), \<lparr>pending = []\<rparr>,
               db1\<lparr>t_books := t_books db @ [create_book_row db book_data],
                   t_content_authors :=
                     t_content_authors db @ author_links cid (id_list author_ids),
                   t_content_categories :=
                     t_content_categories db @ category_links cid (id_list category_ids)\<rparr>)
         else (Inl IntegrityError,
               \<lparr>pending = EBook (Book_init book_data cid)
                   # map EContentAuthor (author_links cid (id_list author_ids))
                   @ map EContentCategory (category_links cid (id_list category_ids))\<rparr>,
               db1))"
proof -
  let ?cid = "next_id (map c_id (t_content db))"
  let ?content = "create_book_content db now content_data"
  let ?db1 = "db\<lparr>t_content := t_content db @ [?content]\<rparr>"
  let ?pend = "EBook (Book_init book_data ?cid)
                   # map EContentAuthor (author_links ?cid (id_list author_ids))
                   @ map EContentCategory (category_links ?cid (id_list category_ids))"
  have cid: "c_id ?content = Some ?cid"
    by (simp add: create_book_content_def)
  have c1: "Some ?cid \<in> set (map c_id (t_content ?db1))"
    by (simp add: cid)
  have second: "session_commit \<lparr>pending = ?pend\<rparr> ?db1 =
      (if ?cid \<notin> set (map b_content_id (t_books db))
            \<and> author_links_ok db ?cid (id_list author_ids)
            \<and> category_links_ok db ?cid (id_list category_ids)
       then (Inr (EBook (create_book_row db book_data)
                  # map EContentAuthor (author_links ?cid (id_list author_ids))
                  @ map EContentCategory (category_links ?cid (id_list category_ids))),
             \<lparr>pending = []\<rparr>,
             ?db1\<lparr>t_books := t_books db @ [create_book_row db book_data],
                  t_content_authors :=
                    t_content_authors db @ author_links ?cid (id_list author_ids),
                  t_content_categories :=
                    t_content_categories db @ category_links ?cid (id_list category_ids)\<rparr>)
       else (Inl IntegrityError, \<lparr>pending = ?pend\<rparr>, ?db1))"
    using create_book_second_flush[OF c1, of book_data "id_list author_ids" "id_list category_ids"]
      author_links_ok_cong[of ?db1 db ?cid "id_list author_ids"]
      category_links_ok_cong[of ?db1 db ?cid "id_list category_ids"]
    by (simp add: session_commit_def create_book_row_def del: flush.simps)
  have sess: "(let session = session_add \<lparr>pending = []\<rparr> (EBook (Book_init book_data ?cid));
          session = (case author_ids of
                       None \<Rightarrow> session
                     | Some ids \<Rightarrow>
                         if ids = [] then session
                         else fold (\<lambda>author_id session. session_add session (EContentAuthor
                                \<lparr>ca_content_id = ?cid, ca_author_id = author_id\<rparr>)) ids session);
          session = (case category_ids of
                       None \<Rightarrow> session
                     | Some ids \<Rightarrow>
                         if ids = [] then session
                         else fold (\<lambda>category_id session. session_add session (EContentCategory
                                \<lparr>cc_content_id = ?cid, cc_category_id = category_id\<rparr>)) ids session)
      in session) = \<lparr>pending = ?pend\<rparr>"
    by (simp add: Let_def add_links_session session_add_def author_links_def
        category_links_def comp_def)
  show ?thesis
    apply (simp only: create_book_try_def Let_def)
    apply (simp only: create_book_first_commit prod.case sum.case list.case entity.case
        create_book_refresh_first cid option.case)
    apply (simp only: sess[simplified Let_def] second)
    apply (simp add: create_book_refresh Let_def)
    done
qed

section \<open>The constraints are kept by every write\<close>

lemma wf_empty_store: "wf_store empty_store"
  by (simp add: wf_store_def wf_content_def wf_books_def wf_authors_def wf_categories_def
      wf_content_authors_def wf_content_categories_def empty_store_def)

lemma map_update_ids_comp:
  "c_id c = Some i \<Longrightarrow> map (c_id \<circ> (\<lambda>r. if c_id r = Some i then c else r)) rows = map c_id rows"
  by (induction rows) auto

lemma persist_wf:
  assumes "wf_store db" "persist db obj = Inr (db', obj')"
  shows "wf_store db'"
proof -
  from assms(1) have w: "wf_content db" "wf_books db" "wf_authors db" "wf_categories db"
    "wf_content_authors db" "wf_content_categories db"
    by (simp_all add: wf_store_def)
  show ?thesis
  proof (cases obj)
    case (EContent c)
    show ?thesis
    proof (cases "c_id c")
      case None
      with EContent assms(2) have db': "db' = db\<lparr>t_content := t_content db @
          [c\<lparr>c_id := Some (next_id (map c_id (t_content db)))\<rparr>]\<rparr>"
        by (auto simp: Let_def)
      have "wf_content db'" using w(1)
        by (simp add: wf_content_def db' next_id_fresh del: set_map)
      moreover have "wf_books db'" using w(2)
        by (auto simp: wf_books_def db' list_all_iff)
      moreover have "wf_authors db'" using w(3) by (simp add: wf_authors_def db')
      moreover have "wf_categories db'" using w(4) by (simp add: wf_categories_def db')
      moreover have "wf_content_authors db'" using w(5)
        by (auto simp: wf_content_authors_def db' list_all_iff)
      moreover have "wf_content_categories db'" using w(6)
        by (auto simp: wf_content_categories_def db' list_all_iff)
      ultimately show ?thesis by (simp add: wf_store_def)
    next
      case (Some i)
      show ?thesis
      proof (cases "Some i \<in> set (map c_id (t_content db))")
        case True
        with Some EContent assms(2) have db': "db' = db\<lparr>t_content :=
            map (\<lambda>r. if c_id r = Some i then c else r) (t_content db)\<rparr>"
          by (auto simp del: set_map)
        have ids: "map c_id (t_content db') = map c_id (t_content db)"
          by (simp add: db' map_update_ids_comp[OF Some])
        have "wf_content db'" using w(1) by (simp add: wf_content_def ids del: set_map)
        moreover have "wf_books db'" using w(2)
          by (simp add: wf_books_def ids del: set_map) (simp add: db')
        moreover have "wf_authors db'" using w(3) by (simp add: wf_authors_def db')
        moreover have "wf_categories db'" using w(4) by (simp add: wf_categories_def db')
        moreover have "wf_content_authors db'" using w(5)
          by (simp add: wf_content_authors_def ids del: set_map) (simp add: db')
        moreover have "wf_content_categories db'" using w(6)
          by (simp add: wf_content_categories_def ids del: set_map) (simp add: db')
        ultimately show ?thesis by (simp add: wf_store_def)
      next
        case False
        with Some EContent assms(2) have db': "db' = db\<lparr>t_content := t_content db @ [c]\<rparr>"
          by (auto simp del: set_map)
        have "wf_content db'" using w(1) False Some
          by (simp add: wf_content_def db' del: set_map)
        moreover have "wf_books db'" using w(2)
          by (auto simp: wf_books_def db' list_all_iff)
        moreover have "wf_authors db'" using w(3) by (simp add: wf_authors_def db')
        moreover have "wf_categories db'" using w(4) by (simp add: wf_categories_def db')
        moreover have "wf_content_authors db'" using w(5)
          by (auto simp: wf_content_authors_def db' list_all_iff)
        moreover have "wf_content_categories db'" using w(6)
          by (auto simp: wf_content_categories_def db' list_all_iff)
        ultimately show ?thesis by (simp add: wf_store_def)
      qed
    qed
  next
    case (EBook b)
    define row where "row = (case b_id b of
        None \<Rightarrow> b\<lparr>b_id := Some (next_id (map b_id (t_books db)))\<rparr> | Some _ \<Rightarrow> b)"
    from EBook assms(2) have ok: "b_id row \<notin> set (map b_id (t_books db))"
      "b_content_id row \<notin> set (map b_content_id (t_books db))"
      "Some (b_content_id row) \<in> set (map c_id (t_content db))"
      and db': "db' = db\<lparr>t_books := t_books db @ [row]\<rparr>"
      by (auto simp: Let_def row_def split: if_splits simp del: set_map)
    have nn: "b_id row \<noteq> None"
      using ok(1) by (auto simp: row_def split: option.splits)
    have "wf_content db'" using w(1) by (simp add: wf_content_def db')
    moreover have "wf_books db'" using w(2) ok nn
      by (auto simp: wf_books_def db' simp del: set_map)
    moreover have "wf_authors db'" using w(3) by (simp add: wf_authors_def db')
    moreover have "wf_categories db'" using w(4) by (simp add: wf_categories_def db')
    moreover have "wf_content_authors db'" using w(5) by (simp add: wf_content_authors_def db')
    moreover have "wf_content_categories db'" using w(6)
      by (simp add: wf_content_categories_def db')
    ultimately show ?thesis by (simp add: wf_store_def)
  next
    case (EAuthor a)
    define row where "row = (case a_id a of
        None \<Rightarrow> a\<lparr>a_id := Some (next_id (map a_id (t_authors db)))\<rparr> | Some _ \<Rightarrow> a)"
    from EAuthor assms(2) have ok: "a_id row \<notin> set (map a_id (t_authors db))"
      and db': "db' = db\<lparr>t_authors := t_authors db @ [row]\<rparr>"
      by (auto simp: Let_def row_def split: if_splits simp del: set_map)
    have nn: "a_id row \<noteq> None"
      using ok(1) by (auto simp: row_def split: option.splits)
    have "wf_content db'" using w(1) by (simp add: wf_content_def db')
    moreover have "wf_books db'" using w(2) by (simp add: wf_books_def db')
    moreover have "wf_authors db'" using w(3) ok nn
      by (auto simp: wf_authors_def db' simp del: set_map)
    moreover have "wf_categories db'" using w(4) by (simp add: wf_categories_def db')
    moreover have "wf_content_authors db'" using w(5)
      by (auto simp: wf_content_authors_def db' list_all_iff)
    moreover have "wf_content_categories db'" using w(6)
      by (simp add: wf_content_categories_def db')
    ultimately show ?thesis by (simp add: wf_store_def)
  next
    case (ECategory g)
    define row where "row = (case cat_id g of
        None \<Rightarrow> g\<lparr>cat_id := Some (next_id (map cat_id (t_categories db)))\<rparr> | Some _ \<Rightarrow> g)"
    from ECategory assms(2) have ok: "cat_id row \<notin> set (map cat_id (t_categories db))"
      "cat_name row \<notin> set (map cat_name (t_categories db))"
      "cat_parent_id row = None \<or> cat_parent_id row \<in> set (map cat_id (t_categories db))"
      and db': "db' = db\<lparr>t_categories := t_categories db @ [row]\<rparr>"
      by (auto simp: Let_def row_def split: if_splits option.splits simp del: set_map)
    have nn: "cat_id row \<noteq> None"
      using ok(1) by (auto simp: row_def split: option.splits)
    have "wf_content db'" using w(1) by (simp add: wf_content_def db')
    moreover have "wf_books db'" using w(2) by (simp add: wf_books_def db')
    moreover have "wf_authors db'" using w(3) by (simp add: wf_authors_def db')
    moreover have "wf_categories db'" using w(4) ok nn
      by (auto simp: wf_categories_def db' list_all_iff simp del: set_map)
    moreover have "wf_content_authors db'" using w(5) by (simp add: wf_content_authors_def db')
    moreover have "wf_content_categories db'" using w(6)
      by (auto simp: wf_content_categories_def db' list_all_iff)
    ultimately show ?thesis by (simp add: wf_store_def)
  next
    case (EContentAuthor j)
    with assms(2) have ok: "(ca_content_id j, ca_author_id j)
          \<notin> set (map (\<lambda>r. (ca_content_id r, ca_author_id r)) (t_content_authors db))"
      "Some (ca_content_id j) \<in> set (map c_id (t_content db))"
      "Some (ca_author_id j) \<in> set (map a_id (t_authors db))"
      and db': "db' = db\<lparr>t_content_authors := t_content_authors db @ [j]\<rparr>"
      by (auto split: if_splits simp del: set_map)
    have "wf_content db'" using w(1) by (simp add: wf_content_def db')
    moreover have "wf_books db'" using w(2) by (simp add: wf_books_def db')
    moreover have "wf_authors db'" using w(3) by (simp add: wf_authors_def db')
    moreover have "wf_categories db'" using w(4) by (simp add: wf_categories_def db')
    moreover have "wf_content_authors db'" using w(5) ok
      by (simp add: wf_content_authors_def db' del: set_map)
    moreover have "wf_content_categories db'" using w(6)
      by (simp add: wf_content_categories_def db')
    ultimately show ?thesis by (simp add: wf_store_def)
  next
    case (EContentCategory j)
    with assms(2) have ok: "(cc_content_id j, cc_category_id j)
          \<notin> set (map (\<lambda>r. (cc_content_id r, cc_category_id r)) (t_content_categories db))"
      "Some (cc_content_id j) \<in> set (map c_id (t_content db))"
      "Some (cc_category_id j) \<in> set (map cat_id (t_categories db))"
      and db': "db' = db\<lparr>t_content_categories := t_content_categories db @ [j]\<rparr>"
      by (auto split: if_splits simp del: set_map)
    have "wf_content db'" using w(1) by (simp add: wf_content_def db')
    moreover have "wf_books db'" using w(2) by (simp add: wf_books_def db')
    moreover have "wf_authors db'" using w(3) by (simp add: wf_authors_def db')
    moreover have "wf_categories db'" using w(4) by (simp add: wf_categories_def db')
    moreover have "wf_content_authors db'" using w(5) by (simp add: wf_content_authors_def db')
    moreover have "wf_content_categories db'" using w(6) ok
      by (simp add: wf_content_categories_def db' del: set_map)
    ultimately show ?thesis by (simp add: wf_store_def)
  qed
qed

lemma flush_wf:
  "wf_store db \<Longrightarrow> flush db objs = Inr (db', objs') \<Longrightarrow> wf_store db'"
proof (induction objs arbitrary: db objs')
  case Nil
  then show ?case by simp
next
  case (Cons obj objs)
  from Cons.prems(2) obtain db1 obj1 objs1 where
    p: "persist db obj = Inr (db1, obj1)" and f: "flush db1 objs = Inr (db', objs1)"
    by (auto split: sum.splits)
  from persist_wf[OF Cons.prems(1) p] have "wf_store db1" .
  from Cons.IH[OF this f] show ?case .
qed

section \<open>What \<open>create_book\<close> writes\<close>

lemma create_book_eq:
  "create_book db now content_data book_data author_ids category_ids =
     (let cid = next_id (map c_id (t_content db));
          content = create_book_content db now content_data;
          db1 = db\<lparr>t_content := t_content db @ [content]\<rparr>
      in if cid \<notin> set (map b_content_id (t_books db))
            \<and> author_links_ok db cid (id_list author_ids)
            \<and> category_links_ok db cid (id_list category_ids)
         then (Inr (Some content),
               db1\<lparr>t_books := t_books db @ [create_book_row db book_data],
                   t_content_authors :=
                     t_content_authors db @ author_links cid (id_list author_ids),
                   t_content_categories :=
                     t_content_categories db @ category_links cid (id_list category_ids)\<rparr>)
         else (Inl IntegrityError, db1))"
  by (simp add: create_book_def create_book_try_eq Let_def)

lemma create_book_success:
  assumes "fst (create_book db now content_data book_data author_ids category_ids) = Inr r"
  shows "r = Some (create_book_content db now content_data)"
    and "next_id (map c_id (t_content db)) \<notin> set (map b_content_id (t_books db))"
    and "author_links_ok db (next_id (map c_id (t_content db))) (id_list author_ids)"
    and "category_links_ok db (next_id (map c_id (t_content db))) (id_list category_ids)"
    and "snd (create_book db now content_data book_data author_ids category_ids) =
         db\<lparr>t_content := t_content db @ [create_book_content db now content_data],
            t_books := t_books db @ [create_book_row db book_data],
            t_content_authors := t_content_authors db
               @ author_links (next_id (map c_id (t_content db))) (id_list author_ids),
            t_content_categories := t_content_categories db
               @ category_links (next_id (map c_id (t_content db))) (id_list category_ids)\<rparr>"
  using assms by (auto simp: create_book_eq Let_def split: if_splits)

lemma create_book_failure:
  assumes "fst (create_book db now content_data book_data author_ids category_ids) = Inl e"
  shows "e = IntegrityError"
    and "snd (create_book db now content_data book_data author_ids category_ids) =
         db\<lparr>t_content := t_content db @ [create_book_content db now content_data]\<rparr>"
  using assms by (auto simp: create_book_eq Let_def split: if_splits)

lemma session_get_created:
  "t_content db' = t_content db @ [create_book_content db now content_data] \<Longrightarrow>
   session_get db' (next_id (map c_id (t_content db))) =
     Some (create_book_content db now content_data)"
  using create_book_refresh[of db' db now content_data]
  by (simp add: session_refresh_def create_book_content_def split: option.splits)

lemma wf_sample_store: "wf_store sample_store"
  by code_simp

text \<open>
  A call that succeeds returns a Content whose stored row has content type book, whatever
  type the caller supplied; exactly one Book row refers to its id; and
  \<open>get_content_with_details\<close> on that id returns a result, for this Content, whose
  extended info is that Book row.
\<close>

lemma create_book_success_extension_row:
  assumes "fst (create_book db now content_data book_data author_ids category_ids) = Inr r"
  shows "\<exists>content cid book.
           r = Some content \<and> c_id content = Some cid
           \<and> fst (get_content_by_id
                    (snd (create_book db now content_data book_data author_ids category_ids))
                    cid) = Some content
           \<and> c_content_type content = BOOK
           \<and> filter (\<lambda>b. b_content_id b = cid)
               (t_books (snd (create_book db now content_data book_data author_ids
                                category_ids))) = [book]
           \<and> map_option d_content
               (fst (get_content_with_details
                       (snd (create_book db now content_data book_data author_ids
                               category_ids)) cid)) = Some content
           \<and> map_option d_extended_info
               (fst (get_content_with_details
                       (snd (create_book db now content_data book_data author_ids
                               category_ids)) cid)) = Some (Some (ExtBook book))"
proof -
  let ?db' = "snd (create_book db now content_data book_data author_ids category_ids)"
  let ?cid = "next_id (map c_id (t_content db))"
  let ?content = "create_book_content db now content_data"
  let ?book = "create_book_row db book_data"
  note s = create_book_success[OF assms]
  have tc: "t_content ?db' = t_content db @ [?content]" by (simp add: s(5))
  have tb: "t_books ?db' = t_books db @ [?book]" by (simp add: s(5))
  have get: "session_get ?db' ?cid = Some ?content"
    by (rule session_get_created[OF tc])
  have old: "filter (\<lambda>b. b_content_id b = ?cid) (t_books db) = []"
    using s(2) by (force simp: filter_empty_conv)
  have bk: "filter (\<lambda>b. b_content_id b = ?cid) (t_books ?db') = [?book]"
    by (simp add: tb old create_book_row_def Book_init_def)
  have ty: "c_content_type ?content = BOOK" and id: "c_id ?content = Some ?cid"
    by (simp_all add: create_book_content_def)
  have det: "fst (get_content_with_details ?db' ?cid) =
      Some \<lparr>d_content = ?content, d_authors = fst (get_content_authors ?db' ?cid),
            d_categories = fst (get_content_categories ?db' ?cid),
            d_extended_info = Some (ExtBook ?book)\<rparr>"
    using bk
    by (simp add: get_content_with_details_def get ty query_defs first_def
        get_content_authors_def get_content_categories_def Let_def)
  show ?thesis
    using s(1) id get ty bk det by (simp add: get_content_by_id_def)
qed

lemma create_book_succeeds_on_sample:
  "fst (create_book sample_store (400, 401) sample_content_data sample_book_data (Some [1]) (Some [1, 2]))
     = Inr (Some (create_book_content sample_store (400, 401) sample_content_data))
   \<and> (\<exists>content cid book.
           (Some (create_book_content sample_store (400, 401) sample_content_data)) = Some content \<and> c_id content = Some cid
           \<and> fst (get_content_by_id
                    (snd (create_book sample_store (400, 401) sample_content_data sample_book_data (Some [1]) (Some [1, 2])))
                    cid) = Some content
           \<and> c_content_type content = BOOK
           \<and> filter (\<lambda>b. b_content_id b = cid)
               (t_books (snd (create_book sample_store (400, 401) sample_content_data sample_book_data (Some [1])
                                (Some [1, 2])))) = [book]
           \<and> map_option d_content
               (fst (get_content_with_details
                       (snd (create_book sample_store (400, 401) sample_content_data sample_book_data (Some [1])
                               (Some [1, 2]))) cid)) = Some content
           \<and> map_option d_extended_info
               (fst (get_content_with_details
                       (snd (create_book sample_store (400, 401) sample_content_data sample_book_data (Some [1])
                               (Some [1, 2]))) cid)) = Some (Some (ExtBook book)))"
proof -
  have h: "fst (create_book sample_store (400, 401) sample_content_data sample_book_data (Some [1]) (Some [1, 2]))
     = Inr (Some (create_book_content sample_store (400, 401) sample_content_data))"
    by code_simp
  show ?thesis
    by (rule conjI[OF h create_book_success_extension_row[OF h]])
qed

section \<open>Joins through the junction tables\<close>

lemma join_where_rows:
  "map fst (filter (\<lambda>(a, j). P j) (concat (map (\<lambda>a. map (\<lambda>j. (a, j)) (filter (Q a) js)) as))) =
   concat (map (\<lambda>a. replicate (length (filter (\<lambda>j. Q a j \<and> P j) js)) a) as)"
proof (induction as)
  case Nil
  then show ?case by simp
next
  case (Cons a as)
  have "map fst (filter (\<lambda>(a, j). P j) (map (\<lambda>j. (a, j)) (filter (Q a) js))) =
        replicate (length (filter (\<lambda>j. Q a j \<and> P j) js)) a"
    by (induction js) auto
  with Cons show ?case by simp
qed

lemma get_content_authors_rows:
  "fst (get_content_authors db content_id) =
     concat (map (\<lambda>a. replicate
        (length (filter (\<lambda>j. a_id a = Some (ca_author_id j) \<and> ca_content_id j = content_id)
                   (t_content_authors db))) a) (t_authors db))"
  by (simp add: get_content_authors_def query_defs join_where_rows)

lemma get_content_categories_rows:
  "fst (get_content_categories db content_id) =
     concat (map (\<lambda>g. replicate
        (length (filter (\<lambda>j. cat_id g = Some (cc_category_id j) \<and> cc_content_id j = content_id)
                   (t_content_categories db))) g) (t_categories db))"
  by (simp add: get_content_categories_def query_defs join_where_rows)

lemma concat_replicate_filter:
  "\<forall>a\<in>set as. n a = (if R a then 1 else 0) \<Longrightarrow>
   concat (map (\<lambda>a. replicate (n a) a) as) = filter R as"
  by (induction as) auto

lemma count_matching_id:
  "distinct ids \<Longrightarrow>
   length (filter (\<lambda>k. v = Some k) ids) = (if v \<in> set (map Some ids) then 1 else 0)"
  by (induction ids) (auto simp: filter_empty_conv)

lemma length_filter_ids:
  assumes "distinct (map f rows)" "distinct ids" "set (map Some ids) \<subseteq> set (map f rows)"
  shows "mset (map f (filter (\<lambda>r. f r \<in> set (map Some ids)) rows)) = mset (map Some ids)"
proof -
  have d1: "distinct (map f (filter (\<lambda>r. f r \<in> set (map Some ids)) rows))"
    using assms(1) by (rule distinct_map_filter)
  have d2: "distinct (map Some ids)"
    using assms(2) by (simp add: distinct_map)
  have "set (map f (filter (\<lambda>r. f r \<in> set (map Some ids)) rows)) = set (map Some ids)"
  proof
    show "set (map f (filter (\<lambda>r. f r \<in> set (map Some ids)) rows)) \<subseteq> set (map Some ids)"
      by auto
    show "set (map Some ids) \<subseteq> set (map f (filter (\<lambda>r. f r \<in> set (map Some ids)) rows))"
    proof
      fix v assume v: "v \<in> set (map Some ids)"
      with assms(3) obtain r where "r \<in> set rows" "f r = v" by auto
      with v show "v \<in> set (map f (filter (\<lambda>r. f r \<in> set (map Some ids)) rows))"
        by force
    qed
  qed
  with d1 d2 show ?thesis
    by (simp only: set_eq_iff_mset_eq_distinct)
qed


lemma created_authors:
  assumes wa: "wf_authors db" and wj: "wf_content_authors db"
    and ok: "author_links_ok db (next_id (map c_id (t_content db))) ids"
    and ta: "t_authors db' = t_authors db"
    and tj: "t_content_authors db' =
             t_content_authors db @ author_links (next_id (map c_id (t_content db))) ids"
  shows "filter (\<lambda>j. ca_content_id j = next_id (map c_id (t_content db))) (t_content_authors db')
           = author_links (next_id (map c_id (t_content db))) ids"
    and "fst (get_content_authors db' (next_id (map c_id (t_content db))))
           = filter (\<lambda>a. a_id a \<in> set (map Some ids)) (t_authors db')"
    and "mset (map a_id (fst (get_content_authors db' (next_id (map c_id (t_content db))))))
           = mset (map Some ids)"
    and "length (fst (get_content_authors db' (next_id (map c_id (t_content db))))) = length ids"
proof -
  let ?cid = "next_id (map c_id (t_content db))"
  have old: "ca_content_id j \<noteq> ?cid" if "j \<in> set (t_content_authors db)" for j
  proof
    assume "ca_content_id j = ?cid"
    with wj that have "Some ?cid \<in> set (map c_id (t_content db))"
      by (auto simp: wf_content_authors_def list_all_iff)
    then show False by (simp add: next_id_fresh del: set_map)
  qed
  have old_none: "filter (\<lambda>j. P j \<and> ca_content_id j = ?cid) (t_content_authors db) = []" for P
    using old by (auto simp: filter_empty_conv)
  from old_none[of "\<lambda>_. True"]
  show links: "filter (\<lambda>j. ca_content_id j = ?cid) (t_content_authors db') = author_links ?cid ids"
    by (simp add: tj author_links_def filter_map comp_def)
  from ok have d: "distinct ids" and ex: "set (map Some ids) \<subseteq> set (map a_id (t_authors db))"
    by (auto simp: author_links_ok_def list_all_iff)
  have cnt: "length (filter (\<lambda>j. a_id a = Some (ca_author_id j) \<and> ca_content_id j = ?cid)
                 (t_content_authors db')) = (if a_id a \<in> set (map Some ids) then 1 else 0)" for a
    using count_matching_id[OF d, of "a_id a"]
    by (simp add: tj old_none author_links_def filter_map comp_def del: set_map)
  show rows: "fst (get_content_authors db' ?cid)
                = filter (\<lambda>a. a_id a \<in> set (map Some ids)) (t_authors db')"
    unfolding get_content_authors_rows
    by (rule concat_replicate_filter) (simp add: cnt del: set_map)
  from wa have da: "distinct (map a_id (t_authors db))"
    by (simp add: wf_authors_def)
  show m: "mset (map a_id (fst (get_content_authors db' ?cid))) = mset (map Some ids)"
    unfolding rows ta by (rule length_filter_ids[OF da d ex])
  from arg_cong[OF m, of size] show "length (fst (get_content_authors db' ?cid)) = length ids"
    by simp
qed

lemma created_categories:
  assumes wa: "wf_categories db" and wj: "wf_content_categories db"
    and ok: "category_links_ok db (next_id (map c_id (t_content db))) ids"
    and ta: "t_categories db' = t_categories db"
    and tj: "t_content_categories db' =
             t_content_categories db @ category_links (next_id (map c_id (t_content db))) ids"
  shows "filter (\<lambda>j. cc_content_id j = next_id (map c_id (t_content db))) (t_content_categories db')
           = category_links (next_id (map c_id (t_content db))) ids"
    and "fst (get_content_categories db' (next_id (map c_id (t_content db))))
           = filter (\<lambda>a. cat_id a \<in> set (map Some ids)) (t_categories db')"
    and "mset (map cat_id (fst (get_content_categories db' (next_id (map c_id (t_content db))))))
           = mset (map Some ids)"
    and "length (fst (get_content_categories db' (next_id (map c_id (t_content db))))) = length ids"
proof -
  let ?cid = "next_id (map c_id (t_content db))"
  have old: "cc_content_id j \<noteq> ?cid" if "j \<in> set (t_content_categories db)" for j
  proof
    assume "cc_content_id j = ?cid"
    with wj that have "Some ?cid \<in> set (map c_id (t_content db))"
      by (auto simp: wf_content_categories_def list_all_iff)
    then show False by (simp add: next_id_fresh del: set_map)
  qed
  have old_none: "filter (\<lambda>j. P j \<and> cc_content_id j = ?cid) (t_content_categories db) = []" for P
    using old by (auto simp: filter_empty_conv)
  from old_none[of "\<lambda>_. True"]
  show links: "filter (\<lambda>j. cc_content_id j = ?cid) (t_content_categories db') = category_links ?cid ids"
    by (simp add: tj category_links_def filter_map comp_def)
  from ok have d: "distinct ids" and ex: "set (map Some ids) \<subseteq> set (map cat_id (t_categories db))"
    by (auto simp: category_links_ok_def list_all_iff)
  have cnt: "length (filter (\<lambda>j. cat_id a = Some (cc_category_id j) \<and> cc_content_id j = ?cid)
                 (t_content_categories db')) = (if cat_id a \<in> set (map Some ids) then 1 else 0)" for a
    using count_matching_id[OF d, of "cat_id a"]
    by (simp add: tj old_none category_links_def filter_map comp_def del: set_map)
  show rows: "fst (get_content_categories db' ?cid)
                = filter (\<lambda>a. cat_id a \<in> set (map Some ids)) (t_categories db')"
    unfolding get_content_categories_rows
    by (rule concat_replicate_filter) (simp add: cnt del: set_map)
  from wa have da: "distinct (map cat_id (t_categories db))"
    by (simp add: wf_categories_def)
  show m: "mset (map cat_id (fst (get_content_categories db' ?cid))) = mset (map Some ids)"
    unfolding rows ta by (rule length_filter_ids[OF da d ex])
  from arg_cong[OF m, of size] show "length (fst (get_content_categories db' ?cid)) = length ids"
    by simp
qed

section \<open>Writes keep the store well-formed; status updates\<close>

lemma session_commit_wf:
  "wf_store db \<Longrightarrow> session_commit session db = (r, session', db') \<Longrightarrow> wf_store db'"
  by (auto simp: session_commit_def split: sum.splits dest: flush_wf)

lemma update_content_status_wf:
  "wf_store db \<Longrightarrow> wf_store (snd (update_content_status db now content_id status))"
  by (auto simp: update_content_status_def Let_def split: option.splits prod.splits sum.splits
      dest: session_commit_wf)

lemma create_author_wf:
  "wf_store db \<Longrightarrow>
   wf_store (snd (create_author db first_name last_name biography birth_date website))"
  by (auto simp: create_author_def Let_def
      split: option.splits prod.splits sum.splits list.splits entity.splits
      dest: session_commit_wf)

lemma create_category_wf:
  "wf_store db \<Longrightarrow> wf_store (snd (create_category db name description parent_id))"
  by (auto simp: create_category_def Let_def
      split: option.splits prod.splits sum.splits list.splits entity.splits
      dest: session_commit_wf)

lemma create_book_wf:
  assumes "wf_store db"
  shows "wf_store (snd (create_book db now content_data book_data author_ids category_ids))"
proof -
  let ?cid = "next_id (map c_id (t_content db))"
  let ?content = "create_book_content db now content_data"
  let ?db1 = "db\<lparr>t_content := t_content db @ [?content]\<rparr>"
  have "persist db (EContent ((Content_init content_data now)\<lparr>c_content_type := BOOK\<rparr>)) =
        Inr (?db1, EContent ?content)"
    by (simp add: Content_init_def create_book_content_def Let_def)
  from persist_wf[OF assms this] have w1: "wf_store ?db1" .
  have c1: "Some ?cid \<in> set (map c_id (t_content ?db1))"
    by (simp add: create_book_content_def)
  show ?thesis
  proof (cases "fst (create_book db now content_data book_data author_ids category_ids)")
    case (Inl e)
    from create_book_failure(2)[OF this] w1 show ?thesis by simp
  next
    case (Inr r)
    note s = create_book_success[OF Inr]
    from s(2,3,4) create_book_second_flush[OF c1, of book_data "id_list author_ids"
        "id_list category_ids"]
      author_links_ok_cong[of ?db1 db ?cid "id_list author_ids"]
      category_links_ok_cong[of ?db1 db ?cid "id_list category_ids"]
    obtain objs where "flush ?db1 (EBook (Book_init book_data ?cid)
          # map EContentAuthor (author_links ?cid (id_list author_ids))
          @ map EContentCategory (category_links ?cid (id_list category_ids))) =
        Inr (snd (create_book db now content_data book_data author_ids category_ids), objs)"
      by (simp add: s(5) create_book_row_def)
    from flush_wf[OF w1 this] show ?thesis .
  qed
qed

lemma find_update_row:
  "(\<And>r. c_id (g r) = c_id r) \<Longrightarrow>
   find (\<lambda>r. c_id r = Some i) (map (\<lambda>r. if c_id r = Some i then g r else r) rows) =
     map_option g (find (\<lambda>r. c_id r = Some i) rows)"
  by (induction rows) auto

lemma session_get_Some:
  "session_get db i = Some content \<Longrightarrow> c_id content = Some i \<and> content \<in> set (t_content db)"
  by (auto simp: session_get_def find_Some_iff in_set_conv_nth)

lemma session_get_None:
  "session_get db i = None \<longleftrightarrow> Some i \<notin> set (map c_id (t_content db))"
  by (force simp: session_get_def find_None_iff)

lemma update_content_status_eq:
  "update_content_status db now content_id status =
     (case session_get db content_id of
        None \<Rightarrow> (Inr False, db)
      | Some content \<Rightarrow>
          (Inr True,
           db\<lparr>t_content := map (\<lambda>r. if c_id r = Some content_id
                                     then content\<lparr>c_status := status, c_updated_at := now\<rparr>
                                     else r) (t_content db)\<rparr>))"
proof (cases "session_get db content_id")
  case None
  then show ?thesis by (simp add: update_content_status_def)
next
  case (Some content)
  from session_get_Some[OF this] have "c_id content = Some content_id"
    "Some content_id \<in> set (map c_id (t_content db))"
    by force+
  then show ?thesis
    by (simp add: update_content_status_def Some session_commit_def session_add_def
        get_session_def del: set_map)
qed

lemma update_rows_unique:
  assumes "distinct (map c_id rows)" "content \<in> set rows" "c_id content = Some i"
  shows "map (\<lambda>r. if c_id r = Some i then g content else r) rows =
         map (\<lambda>r. if c_id r = Some i then g r else r) rows"
proof (rule map_cong[OF refl])
  fix r assume r: "r \<in> set rows"
  from assms(1) have "inj_on c_id (set rows)" by (simp add: distinct_map)
  with r assms(2,3) have "c_id r = Some i \<Longrightarrow> r = content"
    by (metis inj_onD)
  then show "(if c_id r = Some i then g content else r) = (if c_id r = Some i then g r else r)"
    by auto
qed

lemma ContentType_UNIV: "UNIV = {BOOK, ARTICLE, MAGAZINE, MULTIMEDIA}"
proof -
  have "ct \<in> {BOOK, ARTICLE, MAGAZINE, MULTIMEDIA}" for ct
    by (cases ct) simp_all
  then show ?thesis by blast
qed

section \<open>Text search\<close>

lemma ilike_percent_end: "ilike s [CHR ''%'']"
  by (induction s) simp_all

lemma ilike_percent:
  "ilike s (CHR ''%'' # ps) \<longleftrightarrow> (\<exists>n\<le>length s. ilike (drop n s) ps)"
proof (induction s)
  case Nil
  then show ?case by simp
next
  case (Cons c s)
  have "(\<exists>n\<le>length (c # s). ilike (drop n (c # s)) ps) \<longleftrightarrow>
        ilike (c # s) ps \<or> (\<exists>n\<le>length s. ilike (drop n s) ps)"
  proof
    assume "\<exists>n\<le>length (c # s). ilike (drop n (c # s)) ps"
    then obtain n where n: "n \<le> length (c # s)" "ilike (drop n (c # s)) ps" by blast
    show "ilike (c # s) ps \<or> (\<exists>n\<le>length s. ilike (drop n s) ps)"
    proof (cases n)
      case 0
      with n show ?thesis by simp
    next
      case (Suc m)
      with n show ?thesis by auto
    qed
  next
    assume "ilike (c # s) ps \<or> (\<exists>n\<le>length s. ilike (drop n s) ps)"
    then show "\<exists>n\<le>length (c # s). ilike (drop n (c # s)) ps"
    proof
      assume "ilike (c # s) ps"
      then have "0 \<le> length (c # s) \<and> ilike (drop 0 (c # s)) ps" by simp
      then show ?thesis by blast
    next
      assume "\<exists>n\<le>length s. ilike (drop n s) ps"
      then obtain n where "n \<le> length s" "ilike (drop n s) ps" by blast
      then have "Suc n \<le> length (c # s) \<and> ilike (drop (Suc n) (c # s)) ps" by simp
      then show ?thesis by blast
    qed
  qed
  with Cons show ?case by simp
qed

lemma ilike_plain:
  "plain_query q \<Longrightarrow>
   ilike s (q @ ps) \<longleftrightarrow>
     (length q \<le> length s \<and> map lower_char (take (length q) s) = map lower_char q
      \<and> ilike (drop (length q) s) ps)"
proof (induction q arbitrary: s)
  case Nil
  then show ?case by simp
next
  case (Cons a q)
  then have a: "a \<noteq> CHR ''%''" "a \<noteq> CHR ''_''" "a \<noteq> CHR 0x5C" and q: "plain_query q"
    by (simp_all add: plain_query_def)
  show ?case
  proof (cases s)
    case Nil
    with a show ?thesis by simp
  next
    case (Cons c t)
    with a Cons.IH[OF q, of t] show ?thesis by auto
  qed
qed

lemma sublist_map_from_window:
  fixes f :: "char \<Rightarrow> char"
  assumes n: "n \<le> length s" "length query \<le> length (drop n s)"
      "map f (take (length query) (drop n s)) = map f query"
  shows "sublist (map f query) (map f s)"
proof -
  have "map f s = map f (take n s) @ map f (take (length query) (drop n s))
        @ map f (drop (length query) (drop n s))"
    unfolding map_append[symmetric] append_take_drop_id ..
  then have e: "map f s = map f (take n s) @ map f query
        @ map f (drop (length query) (drop n s))"
    by (simp only: n(3))
  show ?thesis
    unfolding sublist_def
    by (rule exI[of _ "map f (take n s)"],
        rule exI[of _ "map f (drop (length query) (drop n s))"], rule e)
qed

lemma sublist_map_window:
  fixes f :: "char \<Rightarrow> char"
  assumes "sublist (map f query) (map f s)"
  shows "\<exists>n\<le>length s. length query \<le> length (drop n s)
           \<and> map f (take (length query) (drop n s)) = map f query"
proof -
  from assms obtain ps ss where e: "map f s = ps @ map f query @ ss"
    by (auto simp: sublist_def)
  let ?n = "length ps"
  have "length (map f s) = length (ps @ map f query @ ss)"
    by (simp only: e)
  then have len: "length s = length ps + length query + length ss"
    by simp
  have "drop ?n (map f s) = map f query @ ss" by (simp add: e)
  then have "take (length query) (drop ?n (map f s)) = map f query" by simp
  then have "map f (take (length query) (drop ?n s)) = map f query"
    by (simp only: take_map drop_map)
  with len have "?n \<le> length s \<and> length query \<le> length (drop ?n s)
           \<and> map f (take (length query) (drop ?n s)) = map f query"
    by simp
  then show ?thesis
    by blast
qed

lemma ilike_contains:
  assumes "plain_query query"
  shows "ilike s (like_pattern query) \<longleftrightarrow> contains_ci query s"
proof -
  have "ilike s (like_pattern query) \<longleftrightarrow>
        (\<exists>n\<le>length s. ilike (drop n s) (query @ [CHR ''%'']))"
    by (simp only: like_pattern_def ilike_percent)
  also have "\<dots> \<longleftrightarrow>
        (\<exists>n\<le>length s. length query \<le> length (drop n s)
           \<and> map lower_char (take (length query) (drop n s)) = map lower_char query)"
    by (simp add: ilike_plain[OF assms] ilike_percent_end del: ilike.simps)
  also have "\<dots> \<longleftrightarrow> sublist (map lower_char query) (map lower_char s)"
    using sublist_map_from_window[of _ s query lower_char]
      sublist_map_window[of lower_char query s]
    by blast
  finally show ?thesis
    by (simp only: contains_ci_def)
qed


lemma search_content_filtered:
  "fst (search_content db query content_type available_only lim) =
     take lim (sort_key (\<lambda>c. - c_created_at c)
       (filter (\<lambda>c. (query \<noteq> [] \<longrightarrow> ilike (c_title c) (like_pattern query)
                                   \<or> ilike (c_description c) (like_pattern query))
                  \<and> passes_filters content_type available_only c)
          (t_content db)))"
  by (simp add: search_content_rows passes_filters_def)

lemma first_rows_of_sorted:
  fixes key :: "'r \<Rightarrow> int"
  shows "\<exists>rest. mset (take lim (sort_key (\<lambda>r. - key r) rows) @ rest) = mset rows
          \<and> sorted_wrt (\<lambda>x y. key y \<le> key x) (take lim (sort_key (\<lambda>r. - key r) rows) @ rest)
          \<and> length (take lim (sort_key (\<lambda>r. - key r) rows)) = min lim (length rows)"
proof (intro exI conjI)
  let ?sorted = "sort_key (\<lambda>r. - key r) rows"
  show "mset (take lim ?sorted @ drop lim ?sorted) = mset rows"
    by simp
  show "sorted_wrt (\<lambda>x y. key y \<le> key x) (take lim ?sorted @ drop lim ?sorted)"
    using sorted_desc_sort_key[of key rows] by simp
  show "length (take lim ?sorted) = min lim (length rows)"
    by (simp add: min.commute)
qed

section \<open>The claims\<close>

text \<open>
  Claim C8. For every state of the store, \<open>get_root_categories\<close> returns exactly the
  categories whose \<open>parent_id\<close> is absent (each as often as the table holds it), and no
  returned category has a \<open>parent_id\<close>.
\<close>

theorem get_root_categories_exact:
  "mset (fst (get_root_categories db)) =
     mset (filter (\<lambda>g. cat_parent_id g = None) (t_categories db))
   \<and> filter (\<lambda>g. cat_parent_id g \<noteq> None) (fst (get_root_categories db)) = []"
  by (simp add: get_root_categories_rows filter_empty_conv)

text \<open>
  Claim C9. Every read operation leaves the store as it found it: search, get by id,
  get books, get with details, the authors and the categories of a content item, the
  count of available content, recent content, all authors, author search, all categories
  and root categories.
\<close>

theorem read_operations_preserve_store:
  "snd (search_content db query content_type available_only lim) = db
   \<and> snd (get_content_by_id db content_id) = db
   \<and> snd (get_books db lim) = db
   \<and> snd (get_content_with_details db content_id) = db
   \<and> snd (get_content_authors db content_id) = db
   \<and> snd (get_content_categories db content_id) = db
   \<and> snd (get_available_content_count db) = db
   \<and> snd (get_recent_content db now days lim) = db
   \<and> snd (get_all_authors db) = db
   \<and> snd (search_authors db query) = db
   \<and> snd (get_all_categories db) = db
   \<and> snd (get_root_categories db) = db"
  by (simp only: snd_search_content snd_get_content_by_id snd_get_books
      snd_get_content_with_details snd_get_content_authors snd_get_content_categories
      snd_get_available_content_count snd_get_recent_content snd_get_all_authors
      snd_search_authors snd_get_all_categories snd_get_root_categories simp_thms)

text \<open>
  Claim C1. A \<open>create_book\<close> whose junction rows cannot be inserted raises the
  storage error, and the Content row it had committed before stays in the store: on the
  sample store, with an author id that names no author and with an author id given
  twice, the call fails and a later \<open>get_content_by_id\<close> finds the new item, while
  no Book row and no junction row of the call is left.
\<close>

theorem create_book_keeps_content_on_failure:
  "fst (create_book sample_store (400, 401) sample_content_data sample_book_data (Some [999]) None)
     = Inl IntegrityError
   \<and> fst (get_content_by_id sample_store 4) = None
   \<and> map_option c_title
       (fst (get_content_by_id
               (snd (create_book sample_store (400, 401) sample_content_data sample_book_data
                       (Some [999]) None)) 4)) = Some ''Emma''
   \<and> t_books (snd (create_book sample_store (400, 401) sample_content_data sample_book_data
                       (Some [999]) None)) = t_books sample_store
   \<and> t_content_authors (snd (create_book sample_store (400, 401) sample_content_data
                                 sample_book_data (Some [999]) None))
       = t_content_authors sample_store
   \<and> fst (create_book sample_store (400, 401) sample_content_data sample_book_data (Some [1, 1]) None)
     = Inl IntegrityError
   \<and> map_option c_title
       (fst (get_content_by_id
               (snd (create_book sample_store (400, 401) sample_content_data sample_book_data
                       (Some [1, 1]) None)) 4)) = Some ''Emma''"
  by code_simp

text \<open>
  Claim C2. The claim speaks of every Content that \<open>create_book\<close> creates, and it fails
  for the Content row that a failed call leaves behind: on the sample store, with an
  author id that names no author, the call raises the storage error, the stored row of
  id 4 has content type book, no Book row refers to it, and \<open>get_content_with_details\<close>
  returns it with no extended info. The store still satisfies every constraint of the
  schema.
\<close>

theorem create_book_failure_leaves_content_without_book:
  "fst (create_book sample_store (400, 401) sample_content_data sample_book_data (Some [999]) None)
     = Inl IntegrityError
   \<and> map_option c_content_type
       (fst (get_content_by_id
               (snd (create_book sample_store (400, 401) sample_content_data sample_book_data
                       (Some [999]) None)) 4)) = Some BOOK
   \<and> filter (\<lambda>b. b_content_id b = 4)
       (t_books (snd (create_book sample_store (400, 401) sample_content_data sample_book_data
                        (Some [999]) None))) = []
   \<and> map_option d_extended_info
       (fst (get_content_with_details
               (snd (create_book sample_store (400, 401) sample_content_data sample_book_data
                       (Some [999]) None)) 4)) = Some None
   \<and> wf_store (snd (create_book sample_store (400, 401) sample_content_data sample_book_data
                       (Some [999]) None))"
proof -
  have a: "fst (create_book sample_store (400, 401) sample_content_data sample_book_data
                  (Some [999]) None) = Inl IntegrityError"
    by code_simp
  have b: "map_option c_content_type
       (fst (get_content_by_id
               (snd (create_book sample_store (400, 401) sample_content_data sample_book_data
                       (Some [999]) None)) 4)) = Some BOOK"
    by code_simp
  have c: "filter (\<lambda>b. b_content_id b = 4)
       (t_books (snd (create_book sample_store (400, 401) sample_content_data sample_book_data
                        (Some [999]) None))) = []"
    by code_simp
  have d: "map_option d_extended_info
       (fst (get_content_with_details
               (snd (create_book sample_store (400, 401) sample_content_data sample_book_data
                       (Some [999]) None)) 4)) = Some None"
    by code_simp
  have e: "wf_store (snd (create_book sample_store (400, 401) sample_content_data
                            sample_book_data (Some [999]) None))"
    by (rule create_book_wf[OF wf_sample_store])
  show ?thesis
    by (intro conjI a b c d e)
qed

text \<open>
  Claim C7. After a successful \<open>create_book\<close> on a well-formed store with N author ids
  and M category ids, the junction rows of the new content id are exactly one row per
  supplied author id and one per supplied category id; \<open>get_content_authors\<close> returns
  N rows, namely the stored authors with the supplied ids, and \<open>get_content_categories\<close>
  returns M rows, namely the stored categories with the supplied ids.
\<close>

theorem create_book_associations:
  assumes "wf_store db"
    and "fst (create_book db now content_data book_data author_ids category_ids) = Inr r"
  shows "\<exists>content cid.
           r = Some content \<and> c_id content = Some cid
           \<and> filter (\<lambda>j. ca_content_id j = cid)
               (t_content_authors (snd (create_book db now content_data book_data author_ids
                                          category_ids)))
               = map (\<lambda>a. \<lparr>ca_content_id = cid, ca_author_id = a\<rparr>) (id_list author_ids)
           \<and> filter (\<lambda>j. cc_content_id j = cid)
               (t_content_categories (snd (create_book db now content_data book_data author_ids
                                             category_ids)))
               = map (\<lambda>g. \<lparr>cc_content_id = cid, cc_category_id = g\<rparr>) (id_list category_ids)
           \<and> length (fst (get_content_authors
                             (snd (create_book db now content_data book_data author_ids
                                     category_ids)) cid))
               = length (id_list author_ids)
           \<and> mset (fst (get_content_authors
                           (snd (create_book db now content_data book_data author_ids
                                   category_ids)) cid))
               = mset (filter (\<lambda>a. a_id a \<in> set (map Some (id_list author_ids)))
                         (t_authors db))
           \<and> mset (map a_id (fst (get_content_authors
                           (snd (create_book db now content_data book_data author_ids
                                   category_ids)) cid)))
               = mset (map Some (id_list author_ids))
           \<and> length (fst (get_content_categories
                             (snd (create_book db now content_data book_data author_ids
                                     category_ids)) cid))
               = length (id_list category_ids)
           \<and> mset (fst (get_content_categories
                           (snd (create_book db now content_data book_data author_ids
                                   category_ids)) cid))
               = mset (filter (\<lambda>g. cat_id g \<in> set (map Some (id_list category_ids)))
                         (t_categories db))
           \<and> mset (map cat_id (fst (get_content_categories
                           (snd (create_book db now content_data book_data author_ids
                                   category_ids)) cid)))
               = mset (map Some (id_list category_ids))"
proof -
  let ?db' = "snd (create_book db now content_data book_data author_ids category_ids)"
  let ?cid = "next_id (map c_id (t_content db))"
  note s = create_book_success[OF assms(2)]
  from assms(1) have w: "wf_authors db" "wf_content_authors db" "wf_categories db"
    "wf_content_categories db"
    by (simp_all add: wf_store_def)
  have ta: "t_authors ?db' = t_authors db"
    and tj: "t_content_authors ?db' = t_content_authors db @ author_links ?cid (id_list author_ids)"
    and tg: "t_categories ?db' = t_categories db"
    and tk: "t_content_categories ?db' =
             t_content_categories db @ category_links ?cid (id_list category_ids)"
    by (simp_all add: s(5))
  note a = created_authors[OF w(1) w(2) s(3) ta tj]
  note g = created_categories[OF w(3) w(4) s(4) tg tk]
  have id: "c_id (create_book_content db now content_data) = Some ?cid"
    by (simp add: create_book_content_def)
  show ?thesis
    using s(1) id a(1) a(3) a(4) g(1) g(3) g(4)
    by (simp add: a(2) g(2) ta tg author_links_def category_links_def del: set_map)
qed

theorem create_book_associations_witness:
  "wf_store sample_store
   \<and> fst (create_book sample_store (400, 401) sample_content_data sample_book_data (Some [1, 2]) (Some [2]))
     = Inr (Some (create_book_content sample_store (400, 401) sample_content_data))
   \<and> (\<exists>content cid.
           (Some (create_book_content sample_store (400, 401) sample_content_data)) = Some content \<and> c_id content = Some cid
           \<and> filter (\<lambda>j. ca_content_id j = cid)
               (t_content_authors (snd (create_book sample_store (400, 401) sample_content_data sample_book_data (Some [1, 2])
                                          (Some [2]))))
               = map (\<lambda>a. \<lparr>ca_content_id = cid, ca_author_id = a\<rparr>) (id_list (Some [1, 2]))
           \<and> filter (\<lambda>j. cc_content_id j = cid)
               (t_content_categories (snd (create_book sample_store (400, 401) sample_content_data sample_book_data (Some [1, 2])
                                             (Some [2]))))
               = map (\<lambda>g. \<lparr>cc_content_id = cid, cc_category_id = g\<rparr>) (id_list (Some [2]))
           \<and> length (fst (get_content_authors
                             (snd (create_book sample_store (400, 401) sample_content_data sample_book_data (Some [1, 2])
                                     (Some [2]))) cid))
               = length (id_list (Some [1, 2]))
           \<and> mset (fst (get_content_authors
                           (snd (create_book sample_store (400, 401) sample_content_data sample_book_data (Some [1, 2])
                                   (Some [2]))) cid))
               = mset (filter (\<lambda>a. a_id a \<in> set (map Some (id_list (Some [1, 2]))))
                         (t_authors sample_store))
           \<and> mset (map a_id (fst (get_content_authors
                           (snd (create_book sample_store (400, 401) sample_content_data sample_book_data (Some [1, 2])
                                   (Some [2]))) cid)))
               = mset (map Some (id_list (Some [1, 2])))
           \<and> length (fst (get_content_categories
                             (snd (create_book sample_store (400, 401) sample_content_data sample_book_data (Some [1, 2])
                                     (Some [2]))) cid))
               = length (id_list (Some [2]))
           \<and> mset (fst (get_content_categories
                           (snd (create_book sample_store (400, 401) sample_content_data sample_book_data (Some [1, 2])
                                   (Some [2]))) cid))
               = mset (filter (\<lambda>g. cat_id g \<in> set (map Some (id_list (Some [2]))))
                         (t_categories sample_store))
           \<and> mset (map cat_id (fst (get_content_categories
                           (snd (create_book sample_store (400, 401) sample_content_data sample_book_data (Some [1, 2])
                                   (Some [2]))) cid)))
               = mset (map Some (id_list (Some [2]))))"
proof -
  have h: "fst (create_book sample_store (400, 401) sample_content_data sample_book_data (Some [1, 2]) (Some [2]))
     = Inr (Some (create_book_content sample_store (400, 401) sample_content_data))"
    by code_simp
  show ?thesis
    by (intro conjI wf_sample_store h create_book_associations[OF wf_sample_store h])
qed

text \<open>
  Claim C3. When no Content row has the id, \<open>update_content_status\<close> returns False and
  the store is unchanged. When a row has the id (in a well-formed store), it returns True,
  the store differs only in that row, whose status is the new status and whose
  \<open>updated_at\<close> is the current time, and \<open>get_content_by_id\<close> afterwards returns that
  row with the new status.
\<close>

theorem update_content_status_effect:
  "(Some content_id \<notin> set (map c_id (t_content db)) \<longrightarrow>
      update_content_status db now content_id status = (Inr False, db))
   \<and> (wf_store db \<and> Some content_id \<in> set (map c_id (t_content db)) \<longrightarrow>
        fst (update_content_status db now content_id status) = Inr True
        \<and> snd (update_content_status db now content_id status) =
            db\<lparr>t_content := map (\<lambda>r. if c_id r = Some content_id
                                      then r\<lparr>c_status := status, c_updated_at := now\<rparr>
                                      else r) (t_content db)\<rparr>
        \<and> fst (get_content_by_id (snd (update_content_status db now content_id status))
                content_id) =
            map_option (\<lambda>r. r\<lparr>c_status := status, c_updated_at := now\<rparr>)
              (fst (get_content_by_id db content_id))
        \<and> map_option c_status
            (fst (get_content_by_id (snd (update_content_status db now content_id status))
                    content_id)) = Some status)"
proof (intro conjI impI)
  assume "Some content_id \<notin> set (map c_id (t_content db))"
  then have "session_get db content_id = None"
    using session_get_None[of db content_id] by blast
  then show "update_content_status db now content_id status = (Inr False, db)"
    by (simp add: update_content_status_eq)
next
  assume a: "wf_store db \<and> Some content_id \<in> set (map c_id (t_content db))"
  then obtain content where g: "session_get db content_id = Some content"
    using session_get_None[of db content_id] by (cases "session_get db content_id") auto
  note c = session_get_Some[OF g]
  from a have d: "distinct (map c_id (t_content db))"
    by (simp add: wf_store_def wf_content_def)
  let ?g = "\<lambda>r. r\<lparr>c_status := status, c_updated_at := now\<rparr>"
  have st: "snd (update_content_status db now content_id status) =
      db\<lparr>t_content := map (\<lambda>r. if c_id r = Some content_id then ?g r else r) (t_content db)\<rparr>"
    using update_rows_unique[OF d conjunct2[OF c] conjunct1[OF c], of ?g]
    by (simp add: update_content_status_eq g)
  show "fst (update_content_status db now content_id status) = Inr True"
    by (simp add: update_content_status_eq g)
  show "snd (update_content_status db now content_id status) =
      db\<lparr>t_content := map (\<lambda>r. if c_id r = Some content_id then ?g r else r) (t_content db)\<rparr>"
    by (rule st)
  show get: "fst (get_content_by_id (snd (update_content_status db now content_id status))
                content_id) = map_option ?g (fst (get_content_by_id db content_id))"
    by (simp add: st get_content_by_id_def session_get_def find_update_row)
  show "map_option c_status
            (fst (get_content_by_id (snd (update_content_status db now content_id status))
                    content_id)) = Some status"
    by (simp only: get) (simp add: get_content_by_id_def g)
qed


theorem update_content_status_effect_witness:
  "Some 99 \<notin> set (map c_id (t_content sample_store))
   \<and> update_content_status sample_store 500 99 RESERVED = (Inr False, sample_store)
   \<and> wf_store sample_store
   \<and> Some 1 \<in> set (map c_id (t_content sample_store))
   \<and> fst (update_content_status sample_store 500 1 CHECKED_OUT) = Inr True
   \<and> map_option c_status
       (fst (get_content_by_id (snd (update_content_status sample_store 500 1 CHECKED_OUT)) 1))
       = Some CHECKED_OUT"
proof -
  have absent: "Some 99 \<notin> set (map c_id (t_content sample_store))"
    by code_simp
  have present: "Some 1 \<in> set (map c_id (t_content sample_store))"
    by code_simp
  show ?thesis
    using absent present wf_sample_store
      update_content_status_effect[where content_id = 99 and db = sample_store and now = 500
        and status = RESERVED]
      update_content_status_effect[where content_id = 1 and db = sample_store and now = 500
        and status = CHECKED_OUT]
    by blast
qed

text \<open>
  Claim C6. The keys of the mapping returned by \<open>get_available_content_count\<close> are exactly
  the four content types; on a well-formed store each type maps to the number of Content
  rows of that type with status available, which is zero when there is no such row.
\<close>

theorem get_available_content_count_keys:
  "dom (fst (get_available_content_count db)) = {BOOK, ARTICLE, MAGAZINE, MULTIMEDIA}
   \<and> (wf_store db \<longrightarrow>
        fst (get_available_content_count db) content_type =
          Some (length (filter (\<lambda>c. c_content_type c = content_type \<and> c_status c = AVAILABLE)
                          (t_content db))))
   \<and> (wf_store db
        \<and> filter (\<lambda>c. c_content_type c = content_type \<and> c_status c = AVAILABLE) (t_content db) = []
        \<longrightarrow> fst (get_available_content_count db) content_type = Some 0)"
proof -
  have keys: "dom (fst (get_available_content_count db)) = {BOOK, ARTICLE, MAGAZINE, MULTIMEDIA}"
    unfolding ContentType_UNIV[symmetric]
    by (auto simp: get_available_content_count_map)
  have cnt: "fst (get_available_content_count db) content_type =
          Some (length (filter (\<lambda>c. c_content_type c = content_type \<and> c_status c = AVAILABLE)
                          (t_content db)))" if "wf_store db"
  proof -
    from that have "None \<notin> set (map c_id (t_content db))"
      by (simp add: wf_store_def wf_content_def del: set_map)
    then have "\<forall>c\<in>set (t_content db). c_id c \<noteq> None"
      by force
    then have "filter (\<lambda>c. c_id c \<noteq> None \<and> c_content_type c = content_type
                          \<and> c_status c = AVAILABLE) (t_content db) =
               filter (\<lambda>c. c_content_type c = content_type \<and> c_status c = AVAILABLE)
                 (t_content db)"
      by (intro filter_cong) auto
    then show ?thesis
      by (simp only: get_available_content_count_map)
  qed
  show ?thesis
    using keys cnt by auto
qed

theorem get_available_content_count_keys_witness:
  "wf_store sample_store
   \<and> fst (get_available_content_count sample_store) BOOK = Some 2
   \<and> filter (\<lambda>c. c_content_type c = MAGAZINE \<and> c_status c = AVAILABLE) (t_content sample_store)
       = []
   \<and> fst (get_available_content_count sample_store) MAGAZINE = Some 0"
proof -
  have e: "filter (\<lambda>c. c_content_type c = MAGAZINE \<and> c_status c = AVAILABLE)
             (t_content sample_store) = []"
    by code_simp
  have n: "length (filter (\<lambda>c. c_content_type c = BOOK \<and> c_status c = AVAILABLE)
             (t_content sample_store)) = 2"
    by code_simp
  show ?thesis
    using e n wf_sample_store
      get_available_content_count_keys[where db = sample_store and content_type = BOOK]
      get_available_content_count_keys[where db = sample_store and content_type = MAGAZINE]
    by simp
qed

text \<open>
  Claim C10. \<open>get_content_authors\<close> and \<open>get_content_categories\<close> return the empty
  list for an id without junction rows, and so (in a well-formed store) for an id that no
  Content row has; their results are lists, with no error and no absent value.
\<close>

theorem junction_lookups_empty:
  "(list_all (\<lambda>j. ca_content_id j \<noteq> content_id) (t_content_authors db) \<longrightarrow>
      fst (get_content_authors db content_id) = [])
   \<and> (list_all (\<lambda>j. cc_content_id j \<noteq> content_id) (t_content_categories db) \<longrightarrow>
      fst (get_content_categories db content_id) = [])
   \<and> (wf_store db \<and> Some content_id \<notin> set (map c_id (t_content db)) \<longrightarrow>
      fst (get_content_authors db content_id) = []
      \<and> fst (get_content_categories db content_id) = [])"
proof -
  have a: "fst (get_content_authors db content_id) = []"
    if "list_all (\<lambda>j. ca_content_id j \<noteq> content_id) (t_content_authors db)"
  proof -
    from that have e: "filter (\<lambda>j. a_id a = Some (ca_author_id j) \<and> ca_content_id j = content_id)
        (t_content_authors db) = []" for a
      by (auto simp: filter_empty_conv list_all_iff)
    show ?thesis by (simp add: get_content_authors_rows e)
  qed
  have g: "fst (get_content_categories db content_id) = []"
    if "list_all (\<lambda>j. cc_content_id j \<noteq> content_id) (t_content_categories db)"
  proof -
    from that have e: "filter (\<lambda>j. cat_id c = Some (cc_category_id j) \<and> cc_content_id j = content_id)
        (t_content_categories db) = []" for c
      by (auto simp: filter_empty_conv list_all_iff)
    show ?thesis by (simp add: get_content_categories_rows e)
  qed
  have fk: "list_all (\<lambda>j. ca_content_id j \<noteq> content_id) (t_content_authors db)
      \<and> list_all (\<lambda>j. cc_content_id j \<noteq> content_id) (t_content_categories db)"
    if "wf_store db" "Some content_id \<notin> set (map c_id (t_content db))"
    using that
    by (auto simp: wf_store_def wf_content_authors_def wf_content_categories_def list_all_iff
        simp del: set_map)
  show ?thesis
    using a g fk by blast
qed

theorem junction_lookups_empty_witness:
  "list_all (\<lambda>j. ca_content_id j \<noteq> 3) (t_content_authors sample_store)
   \<and> fst (get_content_authors sample_store 3) = []
   \<and> list_all (\<lambda>j. cc_content_id j \<noteq> 3) (t_content_categories sample_store)
   \<and> fst (get_content_categories sample_store 3) = []
   \<and> wf_store sample_store
   \<and> Some 99 \<notin> set (map c_id (t_content sample_store))
   \<and> fst (get_content_authors sample_store 99) = []
   \<and> fst (get_content_categories sample_store 99) = []"
proof -
  have a: "list_all (\<lambda>j. ca_content_id j \<noteq> 3) (t_content_authors sample_store)"
    by code_simp
  have g: "list_all (\<lambda>j. cc_content_id j \<noteq> 3) (t_content_categories sample_store)"
    by code_simp
  have absent: "Some 99 \<notin> set (map c_id (t_content sample_store))"
    by code_simp
  show ?thesis
    using a g absent wf_sample_store
      junction_lookups_empty[where db = sample_store and content_id = 3]
      junction_lookups_empty[where db = sample_store and content_id = 99]
    by blast
qed

text \<open>
  Claim C4. The result of \<open>search_content\<close> is ordered by \<open>created_at\<close> descending and
  has at most \<open>limit\<close> rows. For every query and every choice of filters it is the
  first \<open>limit\<close> rows of a descending arrangement of all matching rows: as many rows as
  match, up to \<open>limit\<close>, and no row left out is more recent than a row returned. With
  an empty query the matching rows are all rows that pass the other filters. When no row
  matches, the result is the empty list.
\<close>

theorem search_content_ordered_limited:
  "sorted_wrt (\<lambda>x y. c_created_at y \<le> c_created_at x)
     (fst (search_content db query content_type available_only lim))
   \<and> length (fst (search_content db query content_type available_only lim)) \<le> lim
   \<and> (\<exists>rest.
         mset (fst (search_content db query content_type available_only lim) @ rest)
           = mset (filter (\<lambda>c. (query \<noteq> [] \<longrightarrow> ilike (c_title c) (like_pattern query)
                                       \<or> ilike (c_description c) (like_pattern query))
                               \<and> passes_filters content_type available_only c)
                     (t_content db))
         \<and> sorted_wrt (\<lambda>x y. c_created_at y \<le> c_created_at x)
             (fst (search_content db query content_type available_only lim) @ rest)
         \<and> length (fst (search_content db query content_type available_only lim))
             = min lim (length (filter (\<lambda>c. (query \<noteq> [] \<longrightarrow>
                                              ilike (c_title c) (like_pattern query)
                                              \<or> ilike (c_description c) (like_pattern query))
                                            \<and> passes_filters content_type available_only c)
                                  (t_content db))))
   \<and> (query = [] \<longrightarrow>
        (\<exists>rest.
           mset (fst (search_content db query content_type available_only lim) @ rest)
             = mset (filter (passes_filters content_type available_only) (t_content db))
           \<and> sorted_wrt (\<lambda>x y. c_created_at y \<le> c_created_at x)
               (fst (search_content db query content_type available_only lim) @ rest)
           \<and> length (fst (search_content db query content_type available_only lim))
               = min lim (length (filter (passes_filters content_type available_only)
                                    (t_content db)))))
   \<and> (filter (\<lambda>c. (query \<noteq> [] \<longrightarrow> ilike (c_title c) (like_pattern query)
                                     \<or> ilike (c_description c) (like_pattern query))
                    \<and> passes_filters content_type available_only c) (t_content db) = []
        \<longrightarrow> fst (search_content db query content_type available_only lim) = [])"
proof (intro conjI impI)
  let ?P = "\<lambda>c. (query \<noteq> [] \<longrightarrow> ilike (c_title c) (like_pattern query)
                                     \<or> ilike (c_description c) (like_pattern query))
                    \<and> passes_filters content_type available_only c"
  let ?res = "fst (search_content db query content_type available_only lim)"
  have sorted: "sorted_wrt (\<lambda>x y. c_created_at y \<le> c_created_at x)
      (sort_key (\<lambda>c. - c_created_at c) (filter ?P (t_content db)))"
    by (rule sorted_desc_sort_key)
  show "sorted_wrt (\<lambda>x y. c_created_at y \<le> c_created_at x) ?res"
    unfolding search_content_filtered using sorted by (rule sorted_wrt_take)
  show "length ?res \<le> lim"
    unfolding search_content_filtered by simp
  show "?res = []" if "filter ?P (t_content db) = []"
    unfolding search_content_filtered that by simp
  show "\<exists>rest.
           mset (?res @ rest) = mset (filter ?P (t_content db))
           \<and> sorted_wrt (\<lambda>x y. c_created_at y \<le> c_created_at x) (?res @ rest)
           \<and> length ?res = min lim (length (filter ?P (t_content db)))"
    unfolding search_content_filtered
    by (rule first_rows_of_sorted)
  show "\<exists>rest.
           mset (?res @ rest) = mset (filter (passes_filters content_type available_only) (t_content db))
           \<and> sorted_wrt (\<lambda>x y. c_created_at y \<le> c_created_at x) (?res @ rest)
           \<and> length ?res = min lim (length (filter (passes_filters content_type available_only)
                                    (t_content db)))" if "query = []"
    using first_rows_of_sorted[of lim c_created_at
        "filter (passes_filters content_type available_only) (t_content db)"]
    by (simp add: search_content_filtered that)
qed

theorem search_content_ordered_limited_witness:
  "sorted_wrt (\<lambda>x y. c_created_at y \<le> c_created_at x)
     (fst (search_content sample_store [] None True 1))
   \<and> length (fst (search_content sample_store [] None True 1)) = 1
   \<and> map c_title (fst (search_content sample_store [] None True 1)) = [''PYTHON Programming'']
   \<and> length (fst (search_content sample_store ''pr'' None True 10)) = 2
   \<and> length (fst (search_content sample_store ''pr'' None True 1)) = 1
   \<and> fst (search_content sample_store ''zebra'' None True 10) = []"
proof -
  have t: "map c_title (fst (search_content sample_store [] None True 1))
             = [''PYTHON Programming'']"
    by code_simp
  have n: "length (filter (passes_filters None True) (t_content sample_store)) = 2"
    by code_simp
  have p: "length (filter (\<lambda>c. (''pr'' \<noteq> [] \<longrightarrow> ilike (c_title c) (like_pattern ''pr'')
                                     \<or> ilike (c_description c) (like_pattern ''pr''))
                    \<and> passes_filters None True c) (t_content sample_store)) = 2"
    by code_simp
  have e: "filter (\<lambda>c. (''zebra'' \<noteq> [] \<longrightarrow> ilike (c_title c) (like_pattern ''zebra'')
                                     \<or> ilike (c_description c) (like_pattern ''zebra''))
                    \<and> passes_filters None True c) (t_content sample_store) = []"
    by code_simp
  have one: "length (fst (search_content sample_store [] None True 1)) = 1"
    using n search_content_ordered_limited[where db = sample_store and query = "[]"
        and content_type = None and available_only = True and lim = 1]
    by auto
  have two: "length (fst (search_content sample_store ''pr'' None True 10)) = 2"
    using p search_content_ordered_limited[where db = sample_store and query = "''pr''"
        and content_type = None and available_only = True and lim = 10]
    by auto
  have cut: "length (fst (search_content sample_store ''pr'' None True 1)) = 1"
    using p search_content_ordered_limited[where db = sample_store and query = "''pr''"
        and content_type = None and available_only = True and lim = 1]
    by auto
  have none: "fst (search_content sample_store ''zebra'' None True 10) = []"
    using e search_content_ordered_limited[where db = sample_store and query = "''zebra''"
        and content_type = None and available_only = True and lim = 10]
    by blast
  have srt: "sorted_wrt (\<lambda>x y. c_created_at y \<le> c_created_at x)
     (fst (search_content sample_store [] None True 1))"
    using search_content_ordered_limited[where db = sample_store and query = "[]"
        and content_type = None and available_only = True and lim = 1]
    by blast
  show ?thesis
    by (intro conjI srt one t two cut none)
qed

text \<open>
  Claim C5, as amended. For a non-empty query without the characters \<open>%\<close>, \<open>_\<close> and
  backslash, the result of \<open>search_content\<close> is the first \<open>limit\<close> rows of a descending
  arrangement of exactly the rows whose title or description contains the query as a
  case-insensitive substring and that pass the other filters; it is all of them when the
  limit does not cut. The title \<open>PYTHON Programming\<close> contains the query \<open>python\<close>.
\<close>

theorem search_content_substring:
  assumes "query \<noteq> []" and "plain_query query"
  shows "(\<exists>rest.
           mset (fst (search_content db query content_type available_only lim) @ rest)
             = mset (filter (\<lambda>c. (contains_ci query (c_title c)
                                     \<or> contains_ci query (c_description c))
                                \<and> passes_filters content_type available_only c)
                       (t_content db))
           \<and> sorted_wrt (\<lambda>x y. c_created_at y \<le> c_created_at x)
               (fst (search_content db query content_type available_only lim) @ rest)
           \<and> length (fst (search_content db query content_type available_only lim))
               = min lim (length (filter (\<lambda>c. (contains_ci query (c_title c)
                                                   \<or> contains_ci query (c_description c))
                                              \<and> passes_filters content_type available_only c)
                                     (t_content db))))
       \<and> (length (filter (\<lambda>c. (contains_ci query (c_title c)
                                   \<or> contains_ci query (c_description c))
                              \<and> passes_filters content_type available_only c)
                     (t_content db)) \<le> lim \<longrightarrow>
            mset (fst (search_content db query content_type available_only lim))
              = mset (filter (\<lambda>c. (contains_ci query (c_title c)
                                      \<or> contains_ci query (c_description c))
                                 \<and> passes_filters content_type available_only c)
                        (t_content db)))
       \<and> contains_ci ''python'' ''PYTHON Programming''"
proof -
  let ?Q = "\<lambda>c. (contains_ci query (c_title c) \<or> contains_ci query (c_description c))
                \<and> passes_filters content_type available_only c"
  have res: "fst (search_content db query content_type available_only lim) =
      take lim (sort_key (\<lambda>c. - c_created_at c) (filter ?Q (t_content db)))"
    by (simp add: search_content_filtered assms(1) ilike_contains[OF assms(2)])
  have py: "contains_ci ''python'' ''PYTHON Programming''"
    by code_simp
  have full: "mset (take lim (sort_key (\<lambda>c. - c_created_at c) (filter ?Q (t_content db))))
      = mset (filter ?Q (t_content db))" if "length (filter ?Q (t_content db)) \<le> lim"
    using that by simp
  show ?thesis
    unfolding res
    using first_rows_of_sorted[of lim c_created_at "filter ?Q (t_content db)"] full py
    by blast
qed

theorem search_content_substring_witness:
  "''python'' \<noteq> [] \<and> plain_query ''python''
   \<and> length (fst (search_content sample_store ''python'' None True 50)) = 1
   \<and> map c_title (fst (search_content sample_store ''python'' None True 50))
       = [''PYTHON Programming'']"
proof -
  have p: "plain_query ''python''"
    by code_simp
  have n: "''python'' \<noteq> []"
    by simp
  have t: "map c_title (fst (search_content sample_store ''python'' None True 50))
       = [''PYTHON Programming'']"
    by code_simp
  have m: "length (filter (\<lambda>c. (contains_ci ''python'' (c_title c)
                                   \<or> contains_ci ''python'' (c_description c))
                              \<and> passes_filters None True c)
                     (t_content sample_store)) = 1"
    by code_simp
  show ?thesis
    using p t m search_content_substring[OF n p, where db = sample_store and content_type = None
        and available_only = True and lim = 50]
    by auto
qed

text \<open>
  Claim C5 as stated fails. The query \<open>_\<close> is a LIKE pattern for any one character: on
  the sample store the search returns both available items, although neither title nor
  description of either contains an underscore. And with limit 1 the query \<open>p\<close> returns
  one item, although a second available title contains it.
\<close>

theorem search_content_wildcard_counterexample:
  "map c_title (fst (search_content sample_store ''_'' None True 50))
     = [''PYTHON Programming'', ''Pride and Prejudice'']
   \<and> map c_description (fst (search_content sample_store ''_'' None True 50))
     = [''An introduction'', ''A novel of manners'']
   \<and> \<not> contains_ci ''_'' ''PYTHON Programming'' \<and> \<not> contains_ci ''_'' ''An introduction''
   \<and> \<not> contains_ci ''_'' ''Pride and Prejudice'' \<and> \<not> contains_ci ''_'' ''A novel of manners''
   \<and> map c_title (fst (search_content sample_store ''p'' None True 1)) = [''PYTHON Programming'']
   \<and> contains_ci ''p'' ''Pride and Prejudice''"
  by code_simp

end
